theory Spec2Isabelle
  imports Complex_Main
begin

section \<open>JavaScript strings and arrays\<close>

text \<open>
  A JavaScript string is a sequence of UTF-16 code units. A code unit is modelled as an
  integer (its value, between 0 and 65535), so that \<open>length\<close> is the \<open>.length\<close> of the
  source and the non-ASCII characters of the source (the bullet U+2022, the degree sign,
  the emoji) are written by their code units. \<open>lit\<close> embeds an ASCII literal.
\<close>

type_synonym jschar = int
type_synonym jsstring = "jschar list"

definition lit :: "string \<Rightarrow> jsstring" where
  "lit s = map of_char s"

text \<open>The bullet character U+2022 and the line feed.\<close>

definition bullet :: jschar where
  "bullet = 8226"

definition LF :: jschar where
  "LF = 10"

text \<open>
  \<open>WhiteSpace\<close> and \<open>LineTerminator\<close> of ECMAScript: what \<open>String.prototype.trim\<close> removes
  and what \<open>\s\<close> matches in a regular expression.
\<close>

definition isWhiteSpace :: "jschar \<Rightarrow> bool" where
  "isWhiteSpace c =
     (c = 9 \<or> c = 10 \<or> c = 11 \<or> c = 12 \<or> c = 13 \<or> c = 32 \<or> c = 160 \<or> c = 5760
      \<or> (8192 \<le> c \<and> c \<le> 8202) \<or> c = 8232 \<or> c = 8233 \<or> c = 8239 \<or> c = 8287
      \<or> c = 12288 \<or> c = 65279)"

definition trim :: "jsstring \<Rightarrow> jsstring" where
  "trim s = rev (dropWhile isWhiteSpace (rev (dropWhile isWhiteSpace s)))"

definition startsWith :: "jsstring \<Rightarrow> jsstring \<Rightarrow> bool" where
  "startsWith s p = (take (length p) s = p)"

definition endsWith :: "jsstring \<Rightarrow> jsstring \<Rightarrow> bool" where
  "endsWith s p = (drop (length s - length p) s = p)"

fun includes_str :: "jsstring \<Rightarrow> jsstring \<Rightarrow> bool" where
  "includes_str [] p = (p = [])"
| "includes_str (c # cs) p = (startsWith (c # cs) p \<or> includes_str cs p)"

text \<open>\<open>s.split(sep)\<close> for a separator of one code unit: never an empty array.\<close>

fun split_str :: "jschar \<Rightarrow> jsstring \<Rightarrow> jsstring list" where
  "split_str sep [] = [[]]"
| "split_str sep (c # cs) =
     (if c = sep then [] # split_str sep cs
      else (case split_str sep cs of
              [] \<Rightarrow> [[c]]
            | l # ls \<Rightarrow> (c # l) # ls))"

fun join_str :: "jsstring \<Rightarrow> jsstring list \<Rightarrow> jsstring" where
  "join_str sep [] = []"
| "join_str sep [x] = x"
| "join_str sep (x # y # ys) = x @ sep @ join_str sep (y # ys)"

text \<open>
  \<open>xs.slice(a, b)\<close>: a negative index counts from the end, and both ends are clamped to
  the array. \<open>xs.slice(a)\<close> runs to the end.
\<close>

definition slice :: "'a list \<Rightarrow> int \<Rightarrow> int \<Rightarrow> 'a list" where
  "slice xs a b =
     (let n = int (length xs);
          from = (if a < 0 then max (n + a) 0 else min a n);
          to = (if b < 0 then max (n + b) 0 else min b n)
      in take (nat (to - from)) (drop (nat from) xs))"

definition slice_from :: "'a list \<Rightarrow> int \<Rightarrow> 'a list" where
  "slice_from xs a = slice xs a (int (length xs))"

text \<open>\<open>xs.indexOf(x)\<close>: the first position holding \<open>x\<close>, or \<open>-1\<close>.\<close>

fun indexOf :: "'a list \<Rightarrow> 'a \<Rightarrow> int" where
  "indexOf [] y = -1"
| "indexOf (x # xs) y =
     (if x = y then 0 else (let i = indexOf xs y in if i < 0 then -1 else i + 1))"

text \<open>Decimal notation of a natural number, as a template literal prints it.\<close>

fun decimal :: "nat \<Rightarrow> jsstring" where
  "decimal n = (if n < 10 then [48 + int n] else decimal (n div 10) @ [48 + int (n mod 10)])"

declare decimal.simps [simp del]

text \<open>\<open>s.charAt(i)\<close>: the string of the one code unit at \<open>i\<close>, or the empty string.\<close>

definition charAt :: "jsstring \<Rightarrow> nat \<Rightarrow> jsstring" where
  "charAt s i = take 1 (drop i s)"

text \<open>
  \<open>s.toUpperCase()\<close> on the letters \<open>a\<close> to \<open>z\<close>; the source applies it to the first
  letter of two ASCII literals only.
\<close>

definition toUpperCase :: "jsstring \<Rightarrow> jsstring" where
  "toUpperCase s = map (\<lambda>c. if 97 \<le> c \<and> c \<le> 122 then c - 32 else c) s"

text \<open>\<open>s.replace(a, b)\<close> for strings of one code unit: the first occurrence only.\<close>

fun replaceFirst :: "jschar \<Rightarrow> jschar \<Rightarrow> jsstring \<Rightarrow> jsstring" where
  "replaceFirst a b [] = []"
| "replaceFirst a b (c # cs) = (if c = a then b # cs else c # replaceFirst a b cs)"

text \<open>\<open>xs.map((rec, i) => `${i + 1}. ${rec}`)\<close>\<close>

definition numbered :: "jsstring list \<Rightarrow> jsstring list" where
  "numbered xs = map (\<lambda>(i, item). decimal (i + 1) @ lit ''. '' @ item) (enumerate 0 xs)"

section \<open>Values of a context object\<close>

text \<open>
  The \<open>context\<close> parameter has type \<open>any\<close>; the callers pass a plain object whose
  properties are numbers, strings, booleans or arrays of strings. A context is modelled as
  the function from a property name to its value, \<open>JUndefined\<close> for a property that is
  absent.

  A number is a double. The service never computes with a number of the context: it tests
  whether the number is falsy and it prints it. A number is therefore given by these two
  observations: whether it is \<open>+0\<close>, \<open>-0\<close> or \<open>NaN\<close>, and the text that \<open>ToString\<close> yields
  for it, such as \<open>8\<close>, \<open>7.5\<close>, \<open>1e+21\<close> or \<open>NaN\<close>.
\<close>

datatype jsnumber = Number (isZeroOrNaN: bool) (numberToString: jsstring)

datatype jsval = JUndefined | JNull | JBool bool | JNum jsnumber | JStr jsstring | JArr "jsstring list"

type_synonym Context = "jsstring \<Rightarrow> jsval"

fun truthy :: "jsval \<Rightarrow> bool" where
  "truthy JUndefined = False"
| "truthy JNull = False"
| "truthy (JBool b) = b"
| "truthy (JNum n) = (\<not> isZeroOrNaN n)"
| "truthy (JStr s) = (s \<noteq> [])"
| "truthy (JArr xs) = True"

fun toStr :: "jsval \<Rightarrow> jsstring" where
  "toStr JUndefined = lit ''undefined''"
| "toStr JNull = lit ''null''"
| "toStr (JBool b) = (if b then lit ''true'' else lit ''false'')"
| "toStr (JNum n) = numberToString n"
| "toStr (JStr s) = s"
| "toStr (JArr xs) = join_str (lit '','') xs"

text \<open>\<open>`${v || d}`\<close> where the default \<open>d\<close> is given by its text.\<close>

definition orElse :: "jsval \<Rightarrow> jsstring \<Rightarrow> jsstring" where
  "orElse v d = (if truthy v then toStr v else d)"

section \<open>The environment of the service\<close>

datatype error = Error jsstring | TypeError

text \<open>
  What the service cannot decide by itself is a parameter of the model:
  \<^item> \<open>completion n prompt\<close> is the outcome of \<open>callOpenAI(prompt)\<close> when \<open>n\<close> requests have
    been sent before: \<open>Inl\<close> when \<open>fetch\<close> rejects, the status is not OK or the body is
    malformed, \<open>Inr\<close> the text \<open>data.choices[0]?.message?.content || ''\<close> otherwise;
  \<^item> \<open>clock n\<close> is the time in milliseconds that the \<open>n\<close>-th reading of the clock returns;
  \<^item> \<open>localeString n\<close> is \<open>n.toLocaleString()\<close> in the locale of the host.
\<close>

record Env =
  completion :: "nat \<Rightarrow> jsstring \<Rightarrow> error + jsstring"
  clock :: "nat \<Rightarrow> int"
  localeString :: "jsnumber \<Rightarrow> jsstring"

text \<open>
  \<open>v?.toLocaleString()\<close>: \<open>None\<close> when the optional chain stops at \<open>undefined\<close> or
  \<open>null\<close>. Strings, booleans and arrays inherit \<open>toLocaleString\<close> from their prototypes.
\<close>

fun toLocaleString :: "Env \<Rightarrow> jsval \<Rightarrow> jsstring option" where
  "toLocaleString env JUndefined = None"
| "toLocaleString env JNull = None"
| "toLocaleString env (JBool b) = Some (toStr (JBool b))"
| "toLocaleString env (JNum n) = Some (localeString env n)"
| "toLocaleString env (JStr s) = Some s"
| "toLocaleString env (JArr xs) = Some (join_str (lit '','') xs)"

text \<open>\<open>`${v?.toLocaleString() || d}`\<close>\<close>

definition localeOrElse :: "Env \<Rightarrow> jsval \<Rightarrow> jsstring \<Rightarrow> jsstring" where
  "localeOrElse env v d =
     (case toLocaleString env v of
        None \<Rightarrow> d
      | Some s \<Rightarrow> if s = [] then d else s)"

section \<open>The data model of the service\<close>

record AgentConfig =
  role :: jsstring
  goal :: jsstring
  backstory :: jsstring
  tools :: "jsstring list"
  memory :: bool
  verbose :: bool

text \<open>The optional \<open>context\<close> of a task is never set and never read.\<close>

record Task =
  description :: jsstring
  agent :: jsstring
  expected_output :: jsstring

datatype Process = sequential | hierarchical

record CrewConfig =
  agents :: "jsstring \<rightharpoonup> AgentConfig"
  tasks :: "Task list"
  process :: Process
  memory :: bool
  verbose :: bool

text \<open>An element of an agent's memory array, as \<open>executeAgentTask\<close> pushes it.\<close>

record MemoryEntry =
  query :: jsstring
  response :: jsstring
  timestamp :: int
  context' :: Context

record AgentResponse =
  agent :: jsstring
  response :: jsstring
  confidence :: real
  actionItems :: "jsstring list"
  insights :: "jsstring list"
  recommendations :: "jsstring list"
  nextSteps :: "jsstring list"

record CrewExecution =
  results :: "AgentResponse list"
  finalOutput :: jsstring
  executionTime :: int
  success :: bool

datatype GoalType = sleep_tracking | daily_steps

fun goalTypeName :: "GoalType \<Rightarrow> jsstring" where
  "goalTypeName sleep_tracking = lit ''sleep_tracking''"
| "goalTypeName daily_steps = lit ''daily_steps''"

text \<open>
  The fields of the class, and the two counters of its exchanges with the outside:
  \<open>requests\<close> holds the prompts sent to the completion endpoint so far, in order, and
  \<open>clockReads\<close> counts the readings of the clock.
\<close>

record CrewAIService =
  apiKey :: jsstring
  baseUrl :: jsstring
  model :: jsstring
  agentMemory :: "jsstring \<rightharpoonup> MemoryEntry list"
  userContext :: "jsstring \<rightharpoonup> Context"
  requests :: "jsstring list"
  clockReads :: nat

text \<open>The constructor; its argument is \<open>import.meta.env.VITE_OPENAI_API_KEY\<close>.\<close>

definition newCrewAIService :: "jsstring option \<Rightarrow> CrewAIService" where
  "newCrewAIService envKey =
     \<lparr>apiKey = (case envKey of None \<Rightarrow> [] | Some k \<Rightarrow> k),
      baseUrl = lit ''https://api.openai.com/v1'',
      model = lit ''gpt-4o-mini'',
      agentMemory = Map.empty,
      userContext = Map.empty,
      requests = [],
      clockReads = 0\<rparr>"

definition isConfigured :: "CrewAIService \<Rightarrow> bool" where
  "isConfigured s =
     (apiKey s \<noteq> [] \<and> apiKey s \<noteq> lit ''your_openai_api_key_here'' \<and> length (apiKey s) > 20)"

text \<open>\<open>Date.now()\<close> and \<open>new Date()\<close>\<close>

definition now :: "Env \<Rightarrow> CrewAIService \<Rightarrow> int \<times> CrewAIService" where
  "now env s = (clock env (clockReads s), s\<lparr>clockReads := Suc (clockReads s)\<rparr>)"

section \<open>The two crews\<close>

definition sleep_analyst :: AgentConfig where
  "sleep_analyst =
     \<lparr>role = lit ''Sleep Quality Analyst'',
      goal =
         lit ''Analyze sleep patterns, quality metrics, and provide data-driven insights for ''
         @ lit ''sleep optimization'',
      backstory =
         lit ''You are a certified sleep specialist with expertise in circadian rhythm science, ''
         @ lit ''sleep hygiene, and sleep disorder recognition. You analyze sleep data to identify ''
         @ lit ''patterns, quality issues, and optimization opportunities.'',
      tools = [lit ''sleep_data_analysis'', lit ''circadian_rhythm_assessment'', lit ''sleep_quality_scoring''],
      AgentConfig.memory = True,
      AgentConfig.verbose = True\<rparr>"

definition sleep_coach :: AgentConfig where
  "sleep_coach =
     \<lparr>role = lit ''Sleep Optimization Coach'',
      goal =
         lit ''Provide personalized sleep improvement recommendations and behavioral coaching ''
         @ lit ''for better sleep habits'',
      backstory =
         lit ''You are a behavioral sleep coach specializing in sleep hygiene, bedtime routines, ''
         @ lit ''and lifestyle modifications for improved sleep. You help users build sustainable ''
         @ lit ''sleep habits through evidence-based interventions.'',
      tools = [lit ''habit_formation'', lit ''environmental_optimization'', lit ''routine_planning''],
      AgentConfig.memory = True,
      AgentConfig.verbose = True\<rparr>"

definition circadian_specialist :: AgentConfig where
  "circadian_specialist =
     \<lparr>role = lit ''Circadian Rhythm Specialist'',
      goal =
         lit ''Optimize sleep-wake cycles, light exposure, and timing recommendations for better ''
         @ lit ''circadian health'',
      backstory =
         lit ''You are a chronobiology expert who understands how light, timing, and lifestyle ''
         @ lit ''factors affect circadian rhythms. You provide precise timing recommendations for ''
         @ lit ''sleep, meals, exercise, and light exposure.'',
      tools = [lit ''light_therapy_planning'', lit ''meal_timing_optimization'', lit ''chronotype_assessment''],
      AgentConfig.memory = True,
      AgentConfig.verbose = True\<rparr>"

definition activity_analyst :: AgentConfig where
  "activity_analyst =
     \<lparr>role = lit ''Physical Activity Data Analyst'',
      goal =
         lit ''Analyze step patterns, activity levels, and movement behaviors to identify optimization ''
         @ lit ''opportunities'',
      backstory =
         lit ''You are a kinesiologist and movement specialist who analyzes daily activity patterns. ''
         @ lit ''You understand how step counts relate to overall health, weight management, and ''
         @ lit ''cardiovascular fitness.'',
      tools = [lit ''activity_pattern_analysis'', lit ''movement_behavior_assessment'', lit ''health_impact_calculation''],
      AgentConfig.memory = True,
      AgentConfig.verbose = True\<rparr>"

definition movement_coach :: AgentConfig where
  "movement_coach =
     \<lparr>role = lit ''Movement and Walking Coach'',
      goal =
         lit ''Provide personalized strategies to increase daily steps and build sustainable ''
         @ lit ''movement habits'',
      backstory =
         lit ''You are a certified exercise physiologist specializing in lifestyle physical activity. ''
         @ lit ''You help people integrate more movement into their daily routines through practical, ''
         @ lit ''achievable strategies.'',
      tools = [lit ''habit_integration'', lit ''route_planning'', lit ''motivation_strategies''],
      AgentConfig.memory = True,
      AgentConfig.verbose = True\<rparr>"

definition wellness_strategist :: AgentConfig where
  "wellness_strategist =
     \<lparr>role = lit ''Holistic Wellness Strategist'',
      goal =
         lit ''Connect daily movement with overall health goals and provide comprehensive wellness ''
         @ lit ''recommendations'',
      backstory =
         lit ''You are a wellness expert who understands how daily movement impacts sleep, stress, ''
         @ lit ''energy, weight management, and overall health. You create integrated wellness ''
         @ lit ''strategies.'',
      tools = [lit ''wellness_integration'', lit ''goal_alignment'', lit ''lifestyle_optimization''],
      AgentConfig.memory = True,
      AgentConfig.verbose = True\<rparr>"

definition sleep_analyst_task :: Task where
  "sleep_analyst_task =
     \<lparr>description =
         lit ''Analyze current sleep data and identify patterns, quality issues, and areas for ''
         @ lit ''improvement'',
      Task.agent = lit ''sleep_analyst'',
      expected_output =
         lit ''Detailed sleep analysis with quality scores, pattern identification, and specific ''
         @ lit ''improvement areas''\<rparr>"

definition sleep_coach_task :: Task where
  "sleep_coach_task =
     \<lparr>description =
         lit ''Generate personalized sleep optimization recommendations based on analysis'',
      Task.agent = lit ''sleep_coach'',
      expected_output =
         lit ''Actionable sleep improvement plan with specific behavioral modifications and habit ''
         @ lit ''changes''\<rparr>"

definition circadian_specialist_task :: Task where
  "circadian_specialist_task =
     \<lparr>description =
         lit ''Provide circadian rhythm optimization strategies and timing recommendations'',
      Task.agent = lit ''circadian_specialist'',
      expected_output =
         lit ''Precise timing recommendations for sleep, light exposure, meals, and activities ''
         @ lit ''to optimize circadian health''\<rparr>"

definition activity_analyst_task :: Task where
  "activity_analyst_task =
     \<lparr>description =
         lit ''Analyze current step patterns, identify barriers to movement, and assess progress ''
         @ lit ''toward goals'',
      Task.agent = lit ''activity_analyst'',
      expected_output =
         lit ''Comprehensive activity analysis with pattern identification, barrier assessment, ''
         @ lit ''and progress evaluation''\<rparr>"

definition movement_coach_task :: Task where
  "movement_coach_task =
     \<lparr>description =
         lit ''Generate personalized movement strategies and step-increasing recommendations'',
      Task.agent = lit ''movement_coach'',
      expected_output =
         lit ''Practical movement plan with specific strategies to increase daily steps and build ''
         @ lit ''walking habits''\<rparr>"

definition wellness_strategist_task :: Task where
  "wellness_strategist_task =
     \<lparr>description =
         lit ''Integrate movement recommendations with overall wellness goals and lifestyle factors'',
      Task.agent = lit ''wellness_strategist'',
      expected_output =
         lit ''Holistic wellness strategy connecting daily movement with sleep, nutrition, stress ''
         @ lit ''management, and other health goals''\<rparr>"

definition getSleepTrackingCrew :: CrewConfig where
  "getSleepTrackingCrew =
     \<lparr>agents = [lit ''sleep_analyst'' \<mapsto> sleep_analyst,
                lit ''sleep_coach'' \<mapsto> sleep_coach,
                lit ''circadian_specialist'' \<mapsto> circadian_specialist],
      tasks = [sleep_analyst_task, sleep_coach_task, circadian_specialist_task],
      process = sequential,
      CrewConfig.memory = True,
      CrewConfig.verbose = True\<rparr>"

definition getStepsTrackingCrew :: CrewConfig where
  "getStepsTrackingCrew =
     \<lparr>agents = [lit ''activity_analyst'' \<mapsto> activity_analyst,
                lit ''movement_coach'' \<mapsto> movement_coach,
                lit ''wellness_strategist'' \<mapsto> wellness_strategist],
      tasks = [activity_analyst_task, movement_coach_task, wellness_strategist_task],
      process = sequential,
      CrewConfig.memory = True,
      CrewConfig.verbose = True\<rparr>"

section \<open>parseAgentResponse\<close>

text \<open>
  The four local variables of \<open>parseAgentResponse\<close>, which the callback of
  \<open>lines.forEach\<close> assigns.
\<close>

record ParseVars =
  v_recommendations :: "jsstring list"
  v_insights :: "jsstring list"
  v_actionItems :: "jsstring list"
  v_nextSteps :: "jsstring list"

text \<open>\<open>l.trim().startsWith('-') || l.trim().startsWith(bullet)\<close>\<close>

definition isBulletLine :: "jsstring \<Rightarrow> bool" where
  "isBulletLine l = (startsWith (trim l) (lit ''-'') \<or> startsWith (trim l) [bullet])"

text \<open>
  \<open>l.replace(/^[\-\<bullet>]\s*/, '')\<close>: the pattern is anchored at the start of the line itself
  (not of the trimmed line), and \<open>\s*\<close> is greedy.
\<close>

fun stripMarker :: "jsstring \<Rightarrow> jsstring" where
  "stripMarker [] = []"
| "stripMarker (c # cs) =
     (if c = 45 \<or> c = bullet then dropWhile isWhiteSpace cs else c # cs)"

text \<open>
  \<open>lines.slice(lines.indexOf(line) + 1, lines.indexOf(line) + k)\<close>, filtered and mapped.
\<close>

definition collectBullets :: "jsstring list \<Rightarrow> jsstring \<Rightarrow> int \<Rightarrow> jsstring list" where
  "collectBullets lines line k =
     (let nextLines = slice lines (indexOf lines line + 1) (indexOf lines line + k)
      in map (\<lambda>l. trim (stripMarker l)) (filter isBulletLine nextLines))"

definition isRecommendationsHeading :: "jsstring \<Rightarrow> bool" where
  "isRecommendationsHeading line =
     (includes_str line (lit ''**Recommendations**:'') \<or> includes_str line (lit ''**Recommendation''))"

definition isInsightsHeading :: "jsstring \<Rightarrow> bool" where
  "isInsightsHeading line =
     (includes_str line (lit ''**Insights**:'') \<or> includes_str line (lit ''**Insight''))"

definition isNextStepsHeading :: "jsstring \<Rightarrow> bool" where
  "isNextStepsHeading line =
     (includes_str line (lit ''**Next Steps**:'') \<or> includes_str line (lit ''**Action''))"

text \<open>The body of the \<open>forEach\<close> callback: three independent \<open>if\<close> statements.\<close>

definition parseLine :: "jsstring list \<Rightarrow> ParseVars \<Rightarrow> jsstring \<Rightarrow> ParseVars" where
  "parseLine lines vars line =
     (let vars1 = (if isRecommendationsHeading line
                   then vars\<lparr>v_recommendations := collectBullets lines line 6\<rparr> else vars);
          vars2 = (if isInsightsHeading line
                   then vars1\<lparr>v_insights := collectBullets lines line 4\<rparr> else vars1);
          vars3 = (if isNextStepsHeading line
                   then vars2\<lparr>v_nextSteps := collectBullets lines line 4\<rparr> else vars2)
      in vars3)"

text \<open>\<open>response.split('\n').filter(line => line.trim())\<close>: the lines that are not blank.\<close>

definition responseLines :: "jsstring \<Rightarrow> jsstring list" where
  "responseLines text = filter (\<lambda>line. trim line \<noteq> []) (split_str LF text)"

definition initialVars :: ParseVars where
  "initialVars = \<lparr>v_recommendations = [], v_insights = [], v_actionItems = [], v_nextSteps = []\<rparr>"

definition parseAgentResponse :: "jsstring \<Rightarrow> jsstring \<Rightarrow> AgentResponse" where
  "parseAgentResponse text agentRole =
     (let lines = responseLines text;
          vars = foldl (parseLine lines) initialVars lines;
          actionItems' = (if length (v_actionItems vars) = 0
                          then slice (v_recommendations vars) 0 3
                          else v_actionItems vars)
      in \<lparr>agent = agentRole,
          response = text,
          confidence = 0.85,
          actionItems = actionItems',
          insights = v_insights vars,
          recommendations = v_recommendations vars,
          nextSteps = v_nextSteps vars\<rparr>)"


section \<open>Prompts\<close>

definition sleepProfile :: "Context \<Rightarrow> jsstring" where
  "sleepProfile ctx =
     lit ''\<newline>''
     @ lit ''Sleep Profile:\<newline>''
     @ lit ''- Target sleep: ''
     @ orElse (ctx (lit ''targetSleepHours'')) (lit ''8'')
     @ lit '' hours\<newline>''
     @ lit ''- Bedtime: ''
     @ orElse (ctx (lit ''targetBedtime'')) (lit ''Not set'')
     @ lit ''\<newline>''
     @ lit ''- Wake time: ''
     @ orElse (ctx (lit ''targetWakeTime'')) (lit ''Not set'')
     @ lit ''\<newline>''
     @ lit ''- Last night's sleep: ''
     @ orElse (ctx (lit ''lastNightSleep'')) (lit ''Not logged'')
     @ lit '' hours\<newline>''
     @ lit ''- Sleep score: ''
     @ orElse (ctx (lit ''sleepScore'')) (lit ''Not available'')
     @ lit ''\<newline>''
     @ lit ''- Sleep efficiency: ''
     @ orElse (ctx (lit ''sleepEfficiency'')) (lit ''Not available'')
     @ lit ''%\<newline>''
     @ lit ''- Wake-ups: ''
     @ orElse (ctx (lit ''wakeUps'')) (lit ''Not tracked'')
     @ lit ''\<newline>''
     @ lit ''- Room temperature: ''
     @ orElse (ctx (lit ''roomTemperature'')) (lit ''Not set'')
     @ [176]
     @ lit ''F\<newline>''
     @ lit ''- Tracking method: ''
     @ orElse (ctx (lit ''trackingMethod'')) (lit ''Manual'')
     @ lit ''\<newline>''
     @ lit ''- Sleep streak: ''
     @ orElse (ctx (lit ''sleepStreak'')) (lit ''0'')
     @ lit '' days\<newline>''
     @ lit ''- Weekly average: ''
     @ orElse (ctx (lit ''weeklyAverage'')) (lit ''0'')
     @ lit '' hours\<newline>''
     @ lit ''      ''"

text \<open>
  \<open>context.preferredWalkingTimes?.join(', ') || 'Not set'\<close>: a value that is neither
  nullish nor an array has no \<open>join\<close>, and the call throws a \<open>TypeError\<close>.
\<close>

fun joinWalkingTimes :: "jsval \<Rightarrow> error + jsstring" where
  "joinWalkingTimes JUndefined = Inr (lit ''Not set'')"
| "joinWalkingTimes JNull = Inr (lit ''Not set'')"
| "joinWalkingTimes (JArr xs) =
     Inr (if join_str (lit '', '') xs = [] then lit ''Not set'' else join_str (lit '', '') xs)"
| "joinWalkingTimes v = Inl TypeError"

definition stepsProfile :: "Env \<Rightarrow> Context \<Rightarrow> jsstring \<Rightarrow> jsstring" where
  "stepsProfile env ctx walkingTimes =
     lit ''\<newline>''
     @ lit ''Steps Profile:\<newline>''
     @ lit ''- Daily target: ''
     @ localeOrElse env (ctx (lit ''dailyStepTarget'')) (lit ''Not set'')
     @ lit '' steps\<newline>''
     @ lit ''- Current steps today: ''
     @ localeOrElse env (ctx (lit ''currentSteps'')) (lit ''0'')
     @ lit ''\<newline>''
     @ lit ''- Remaining steps: ''
     @ localeOrElse env (ctx (lit ''remainingSteps'')) (lit ''Unknown'')
     @ lit ''\<newline>''
     @ lit ''- Distance today: ''
     @ orElse (ctx (lit ''distance'')) (lit ''0'')
     @ lit ''km\<newline>''
     @ lit ''- Calories burned: ''
     @ orElse (ctx (lit ''caloriesBurned'')) (lit ''0'')
     @ lit ''\<newline>''
     @ lit ''- Tracking method: ''
     @ orElse (ctx (lit ''trackingMethod'')) (lit ''Manual'')
     @ lit ''\<newline>''
     @ lit ''- Step streak: ''
     @ orElse (ctx (lit ''stepStreak'')) (lit ''0'')
     @ lit '' days\<newline>''
     @ lit ''- Weekly average: ''
     @ localeOrElse env (ctx (lit ''weeklyAverage'')) (lit ''0'')
     @ lit '' steps\<newline>''
     @ lit ''- Baseline average: ''
     @ localeOrElse env (ctx (lit ''baselineAverage'')) (lit ''Not set'')
     @ lit '' steps\<newline>''
     @ lit ''- Stride length: ''
     @ orElse (ctx (lit ''strideLength'')) (lit ''Not set'')
     @ lit ''cm\<newline>''
     @ lit ''- Preferred walking times: ''
     @ walkingTimes
     @ lit ''\<newline>''
     @ lit ''- Weather adaptive: ''
     @ (if truthy (ctx (lit ''weatherAdaptive'')) then lit ''Yes'' else lit ''No'')
     @ lit ''\<newline>''
     @ lit ''- Route discovery: ''
     @ (if truthy (ctx (lit ''routeDiscovery'')) then lit ''Enabled'' else lit ''Disabled'')
     @ lit ''\<newline>''
     @ lit ''      ''"

definition formatContextForAgent :: "Env \<Rightarrow> Context \<Rightarrow> jsstring \<Rightarrow> error + jsstring" where
  "formatContextForAgent env ctx agentRole =
     (if includes_str agentRole (lit ''sleep'') then Inr (sleepProfile ctx)
      else if includes_str agentRole (lit ''activity'') \<or> includes_str agentRole (lit ''movement'')
              \<or> includes_str agentRole (lit ''wellness'')
      then (case joinWalkingTimes (ctx (lit ''preferredWalkingTimes'')) of
              Inl e \<Rightarrow> Inl e
            | Inr walkingTimes \<Rightarrow> Inr (stepsProfile env ctx walkingTimes))
      else Inr (lit ''Context not available for this agent type.''))"

text \<open>
  The template of \<open>createAgentPrompt\<close> is cut at \<open>${previousContext || ...}\<close>:
  \<open>promptHead\<close> is its text before that place and \<open>promptTail\<close> its text after it.
\<close>

definition promptHead :: "AgentConfig \<Rightarrow> Task \<Rightarrow> jsstring \<Rightarrow> jsstring" where
  "promptHead agentCfg task contextText =
     lit ''# Agent Role: ''
     @ role agentCfg
     @ lit ''\<newline>''
     @ lit ''\<newline>''
     @ lit ''## Agent Profile\<newline>''
     @ lit ''**Goal**: ''
     @ goal agentCfg
     @ lit ''\<newline>''
     @ lit ''**Backstory**: ''
     @ backstory agentCfg
     @ lit ''\<newline>''
     @ lit ''**Available Tools**: ''
     @ join_str (lit '', '') (tools agentCfg)
     @ lit ''\<newline>''
     @ lit ''\<newline>''
     @ lit ''## Current Task\<newline>''
     @ description task
     @ lit ''\<newline>''
     @ lit ''\<newline>''
     @ lit ''## User Context\<newline>''
     @ contextText
     @ lit ''\<newline>''
     @ lit ''\<newline>''
     @ lit ''## Previous Agent Outputs\<newline>''"

definition promptTail :: "AgentConfig \<Rightarrow> jsstring \<Rightarrow> jsstring \<Rightarrow> jsstring" where
  "promptTail agentCfg userQuery memoryContext =
     lit ''\<newline>''
     @ lit ''\<newline>''
     @ lit ''## User Query\<newline>''
     @ lit ''\"''
     @ userQuery
     @ lit ''\"\<newline>''
     @ lit ''\<newline>''
     @ memoryContext
     @ lit ''\<newline>''
     @ lit ''\<newline>''
     @ lit ''## Instructions\<newline>''
     @ lit ''As the ''
     @ role agentCfg
     @ lit '', provide your specialized analysis and recommendations. Focus on your ''
     @ lit ''specific expertise area while considering the user's context and previous ''
     @ lit ''agent insights. Provide actionable, specific advice that aligns with your ''
     @ lit ''role.\<newline>''
     @ lit ''\<newline>''
     @ lit ''Expected Output Format:\<newline>''
     @ lit ''- **Analysis**: Your specialized assessment\<newline>''
     @ lit ''- **Recommendations**: 3-5 specific actionable items\<newline>''
     @ lit ''- **Insights**: Key patterns or observations\<newline>''
     @ lit ''- **Next Steps**: Immediate actions the user can take\<newline>''
     @ lit ''\<newline>''
     @ lit ''Be conversational, supportive, and provide specific, measurable recommendations ''
     @ lit ''within your area of expertise.''"

definition firstAgentMarker :: jsstring where
  "firstAgentMarker = lit ''None - you are the first agent in this crew.''"

definition memoryContextOf :: "MemoryEntry list \<Rightarrow> jsstring" where
  "memoryContextOf agentMem =
     (if length agentMem > 0
      then lit ''\<newline>\<newline>Previous interactions with this user:\<newline>''
           @ join_str (lit ''\<newline>\<newline>'')
               (map (\<lambda>m. lit ''Q: '' @ query m @ lit ''\<newline>A: '' @ MemoryEntry.response m)
                    (slice_from agentMem (- 3)))
      else [])"

definition createAgentPrompt ::
  "Env \<Rightarrow> AgentConfig \<Rightarrow> Task \<Rightarrow> jsstring \<Rightarrow> Context \<Rightarrow> jsstring \<Rightarrow> MemoryEntry list
     \<Rightarrow> error + jsstring" where
  "createAgentPrompt env agentCfg task userQuery ctx previousContext agentMem =
     (let memoryContext = memoryContextOf agentMem
      in case formatContextForAgent env ctx (role agentCfg) of
           Inl e \<Rightarrow> Inl e
         | Inr contextText \<Rightarrow>
             Inr (promptHead agentCfg task contextText
                  @ (if previousContext = [] then firstAgentMarker else previousContext)
                  @ promptTail agentCfg userQuery memoryContext))"

section \<open>The completion call\<close>

definition callOpenAI :: "Env \<Rightarrow> jsstring \<Rightarrow> CrewAIService \<Rightarrow> (error + jsstring) \<times> CrewAIService" where
  "callOpenAI env prompt s =
     (completion env (length (requests s)) prompt, s\<lparr>requests := requests s @ [prompt]\<rparr>)"

section \<open>The fallback engine\<close>

definition getFallbackAgentResponse :: "jsstring \<Rightarrow> jsstring \<Rightarrow> Context \<Rightarrow> AgentResponse" where
  "getFallbackAgentResponse agentRole userQuery ctx =
     \<lparr>agent = agentRole,
      response =
        lit ''As your ''
        @ agentRole
        @ lit '', I'm here to help with your query about \"''
        @ userQuery
        @ lit ''\". While I'm working with limited connectivity, I can still provide valuable ''
        @ lit ''guidance based on established best practices.'',
      confidence = 0.6,
      actionItems = [lit ''Continue with current plan'', lit ''Monitor progress'', lit ''Stay consistent''],
      insights = [lit ''Consistency is key to success'', lit ''Small changes lead to big results''],
      recommendations = [lit ''Maintain current routine'', lit ''Track progress daily'', lit ''Stay motivated''],
      nextSteps = [lit ''Continue current approach'', lit ''Monitor results'', lit ''Adjust as needed'']\<rparr>"

definition getFallbackResponses :: "Env \<Rightarrow> jsstring \<Rightarrow> jsstring \<Rightarrow> Context \<Rightarrow> AgentResponse list" where
  "getFallbackResponses env goalType userQuery ctx =
     (if goalType = lit ''sleep_tracking'' then
        [\<lparr>agent = lit ''Sleep Quality Analyst'',
          response =
            lit ''Based on your sleep data, I can see you're targeting ''
            @ orElse (ctx (lit ''targetSleepHours'')) (lit ''8'')
            @ lit '' hours of sleep. Your current patterns show room for optimization in sleep ''
            @ lit ''consistency and quality.'',
          confidence = 0.8,
          actionItems =
            [lit ''Track sleep consistently'',
             lit ''Maintain regular bedtime'',
             lit ''Monitor sleep quality''],
          insights =
            [lit ''Sleep consistency is key to quality'',
             lit ''Room temperature affects sleep quality''],
          recommendations =
            [lit ''Maintain consistent bedtime and wake time'',
             lit ''Keep bedroom temperature between 65-68'' @ [176] @ lit ''F'',
             lit ''Avoid screens 1 hour before bed'',
             lit ''Create a relaxing bedtime routine''],
          nextSteps =
            [lit ''Set bedtime reminder'',
             lit ''Prepare bedroom environment'',
             lit ''Log tonight's sleep'']\<rparr>,
         \<lparr>agent = lit ''Sleep Optimization Coach'',
          response =
            lit ''Your sleep habits can be optimized through better sleep hygiene and routine ''
            @ lit ''establishment. Focus on consistency and environmental factors for better ''
            @ lit ''rest.'',
          confidence = 0.8,
          actionItems =
            [lit ''Establish bedtime routine'',
             lit ''Optimize sleep environment'',
             lit ''Track sleep quality''],
          insights =
            [lit ''Routine helps signal sleep time to your body'',
             lit ''Environment greatly impacts sleep quality''],
          recommendations =
            [lit ''Start wind-down routine 1 hour before bed'',
             lit ''Keep bedroom dark, cool, and quiet'',
             lit ''Avoid caffeine after 2 PM'',
             lit ''Use comfortable bedding and pillows''],
          nextSteps =
            [lit ''Plan tonight's routine'',
             lit ''Adjust bedroom setup'',
             lit ''Set caffeine cutoff reminder'']\<rparr>]
      else
        [\<lparr>agent = lit ''Physical Activity Analyst'',
          response =
            lit ''Your current step count of ''
            @ localeOrElse env (ctx (lit ''currentSteps'')) (lit ''0'')
            @ lit '' shows you need ''
            @ localeOrElse env (ctx (lit ''remainingSteps'')) (lit ''more'')
            @ lit '' steps to reach your ''
            @ localeOrElse env (ctx (lit ''dailyStepTarget'')) (lit ''10000'')
            @ lit '' step goal.'',
          confidence = 0.8,
          actionItems =
            [lit ''Increase daily movement'',
             lit ''Find walking opportunities'',
             lit ''Track step progress''],
          insights =
            [lit ''Small movements throughout day add up'',
             lit ''Consistency matters more than intensity''],
          recommendations =
            [lit ''Take stairs instead of elevators'',
             lit ''Park farther away from destinations'',
             lit ''Take walking breaks every hour'',
             lit ''Walk during phone calls'',
             lit ''Use a standing desk when possible''],
          nextSteps =
            [lit ''Take a 10-minute walk now'',
             lit ''Set hourly movement reminders'',
             lit ''Plan walking routes'']\<rparr>,
         \<lparr>agent = lit ''Movement Coach'',
          response =
            lit ''To reach your step goal, focus on integrating movement into your daily ''
            @ lit ''routine. Small changes can lead to significant increases in daily activity.'',
          confidence = 0.8,
          actionItems =
            [lit ''Integrate movement into routine'',
             lit ''Set movement reminders'',
             lit ''Track progress''],
          insights =
            [lit ''Habit stacking makes movement automatic'',
             lit ''Social walking increases adherence''],
          recommendations =
            [lit ''Schedule 3 walking breaks during work'',
             lit ''Walk to nearby errands instead of driving'',
             lit ''Take evening walks with family/friends'',
             lit ''Use fitness apps for motivation'',
             lit ''Join walking groups or challenges''],
          nextSteps =
            [lit ''Schedule next walk'',
             lit ''Invite someone to walk with you'',
             lit ''Download step tracking app'']\<rparr>])"

text \<open>The emoji are written by their UTF-16 code units.\<close>

definition goalEmojiOf :: "jsstring \<Rightarrow> jsstring" where
  "goalEmojiOf goalType =
     (if goalType = lit ''sleep_tracking'' then [55357, 56884]
      else [55357, 57014, 8205, 9792, 65039])"

definition goalNameOf :: "jsstring \<Rightarrow> jsstring" where
  "goalNameOf goalType =
     (if goalType = lit ''sleep_tracking'' then lit ''sleep optimization'' else lit ''daily movement'')"

definition generateFallbackFinalOutput :: "AgentResponse list \<Rightarrow> jsstring \<Rightarrow> jsstring \<Rightarrow> jsstring" where
  "generateFallbackFinalOutput agentResults goalType userQuery =
     (let allRecommendations = concat (map recommendations agentResults);
          topRecommendations = slice allRecommendations 0 5;
          allInsights = concat (map insights agentResults);
          goalEmoji = goalEmojiOf goalType;
          goalName = goalNameOf goalType
      in goalEmoji
         @ lit '' **''
         @ (toUpperCase (charAt goalName 0) @ slice_from goalName 1)
         @ lit '' Plan**\<newline>''
         @ lit ''\<newline>''
         @ lit ''Based on expert analysis, here's your personalized strategy:\<newline>''
         @ lit ''\<newline>''
         @ lit ''**Priority Actions:**\<newline>''
         @ join_str [LF] (numbered topRecommendations)
         @ lit ''\<newline>''
         @ lit ''\<newline>''
         @ lit ''**Key Insights:**\<newline>''
         @ join_str [LF] (map (\<lambda>insight. [bullet] @ lit '' '' @ insight) allInsights)
         @ lit ''\<newline>''
         @ lit ''\<newline>''
         @ lit ''**Next Steps:**\<newline>''
         @ lit ''Start with action #1 today and gradually build these habits into your ''
         @ lit ''routine. Consistency is more important than perfection!\<newline>''
         @ lit ''\<newline>''
         @ lit ''What would you like to focus on first?'')"

definition getFallbackCrewExecution :: "Env \<Rightarrow> jsstring \<Rightarrow> jsstring \<Rightarrow> Context \<Rightarrow> CrewExecution" where
  "getFallbackCrewExecution env goalType userQuery ctx =
     (let fallbackResponses = getFallbackResponses env goalType userQuery ctx
      in \<lparr>results = fallbackResponses,
          finalOutput = generateFallbackFinalOutput fallbackResponses goalType userQuery,
          executionTime = 500,
          success = True\<rparr>)"

section \<open>executeAgentTask\<close>

text \<open>\<open>this.agentMemory.get(role) || []\<close>, which is also \<open>getAgentMemory(role)\<close>.\<close>

definition getAgentMemory :: "CrewAIService \<Rightarrow> jsstring \<Rightarrow> MemoryEntry list" where
  "getAgentMemory s agentRole = (case agentMemory s agentRole of None \<Rightarrow> [] | Some m \<Rightarrow> m)"

definition clearAgentMemory :: "jsstring option \<Rightarrow> CrewAIService \<Rightarrow> CrewAIService" where
  "clearAgentMemory agentRole s =
     (case agentRole of
        None \<Rightarrow> s\<lparr>agentMemory := Map.empty\<rparr>
      | Some r \<Rightarrow> if r = [] then s\<lparr>agentMemory := Map.empty\<rparr>
                  else s\<lparr>agentMemory := (agentMemory s)(r := None)\<rparr>)"

text \<open>
  The statements under \<open>// Update agent memory\<close>: push the entry, then
  \<open>splice(0, length - 10)\<close> when more than ten are held.
\<close>

definition pushMemory :: "MemoryEntry list \<Rightarrow> MemoryEntry \<Rightarrow> MemoryEntry list" where
  "pushMemory agentMem entry =
     (let pushed = agentMem @ [entry]
      in if length pushed > 10 then drop (length pushed - 10) pushed else pushed)"

text \<open>
  A throw of \<open>createAgentPrompt\<close> is outside the \<open>try\<close> and leaves the function; a throw of
  \<open>callOpenAI\<close> is caught and answered by \<open>getFallbackAgentResponse\<close>.
\<close>

definition executeAgentTask ::
  "Env \<Rightarrow> AgentConfig \<Rightarrow> Task \<Rightarrow> jsstring \<Rightarrow> Context \<Rightarrow> AgentResponse list \<Rightarrow> CrewAIService
     \<Rightarrow> (error + AgentResponse) \<times> CrewAIService" where
  "executeAgentTask env agentCfg task userQuery ctx previousResults s =
     (let agentMem = getAgentMemory s (role agentCfg);
          previousContext = join_str (lit ''\<newline>\<newline>'') (map response previousResults)
      in case createAgentPrompt env agentCfg task userQuery ctx previousContext agentMem of
           Inl e \<Rightarrow> (Inl e, s)
         | Inr prompt \<Rightarrow>
             (case callOpenAI env prompt s of
                (Inl e, s1) \<Rightarrow> (Inr (getFallbackAgentResponse (role agentCfg) userQuery ctx), s1)
              | (Inr text, s1) \<Rightarrow>
                  (let parsedResponse = parseAgentResponse text (role agentCfg);
                       (date, s2) = now env s1;
                       entry = \<lparr>query = userQuery,
                                MemoryEntry.response = response parsedResponse,
                                timestamp = date,
                                context' = ctx\<rparr>
                   in (Inr parsedResponse,
                       s2\<lparr>agentMemory := (agentMemory s2)(role agentCfg \<mapsto> pushMemory agentMem entry)\<rparr>))))"

section \<open>coordinateAgentResponses\<close>

definition coordinationPrompt :: "AgentResponse list \<Rightarrow> jsstring \<Rightarrow> jsstring \<Rightarrow> jsstring" where
  "coordinationPrompt agentResponses userQuery goalType =
     lit ''\<newline>''
     @ lit ''# Crew Coordination Task\<newline>''
     @ lit ''\<newline>''
     @ lit ''You are the crew coordinator for a ''
     @ replaceFirst 95 32 goalType
     @ lit '' assistance team. Multiple specialized agents have provided their analysis ''
     @ lit ''and recommendations for this user query: \"''
     @ userQuery
     @ lit ''\"\<newline>''
     @ lit ''\<newline>''
     @ lit ''## Agent Responses:\<newline>''
     @ join_str (lit ''\<newline>\<newline>'')
         (map (\<lambda>r. lit ''\<newline>''
                   @ lit ''### ''
                   @ agent r
                   @ lit ''\<newline>''
                   @ response r
                   @ lit ''\<newline>''
                   @ lit ''\<newline>''
                   @ lit ''Key Recommendations:\<newline>''
                   @ join_str [LF] (map (\<lambda>item. lit ''- '' @ item) (recommendations r))
                   @ lit ''\<newline>'')
              agentResponses)
     @ lit ''\<newline>''
     @ lit ''\<newline>''
     @ lit ''## Your Task\<newline>''
     @ lit ''Synthesize these expert insights into a cohesive, actionable response ''
     @ lit ''for the user. Create a unified plan that:\<newline>''
     @ lit ''\<newline>''
     @ lit ''1. **Integrates all agent recommendations** into a coherent strategy\<newline>''
     @ lit ''2. **Prioritizes actions** based on impact and feasibility  \<newline>''
     @ lit ''3. **Provides specific next steps** the user can take today\<newline>''
     @ lit ''4. **Maintains an encouraging, supportive tone**\<newline>''
     @ lit ''5. **Includes measurable goals** where appropriate\<newline>''
     @ lit ''\<newline>''
     @ lit ''Format your response as a conversational message that feels like it's ''
     @ lit ''coming from a unified AI assistant, not multiple separate agents. Focus ''
     @ lit ''on what the user should do next.\<newline>''"

text \<open>The \<open>catch\<close> branch of \<open>coordinateAgentResponses\<close>: the agents' lists combined by hand.\<close>

definition combineManually :: "AgentResponse list \<Rightarrow> jsstring" where
  "combineManually agentResponses =
     (let combinedRecommendations = slice (concat (map recommendations agentResponses)) 0 5;
          combinedInsights = slice (concat (map insights agentResponses)) 0 3
      in lit ''Based on expert analysis, here are your personalized recommendations:\<newline>''
         @ lit ''\<newline>''
         @ join_str [LF] (numbered combinedRecommendations)
         @ lit ''\<newline>''
         @ lit ''\<newline>''
         @ lit ''Key insights:\<newline>''
         @ join_str [LF] (map (\<lambda>insight. [bullet] @ lit '' '' @ insight) combinedInsights)
         @ lit ''\<newline>''
         @ lit ''\<newline>''
         @ lit ''Let me know if you'd like me to elaborate on any of these recommendations!'')"

definition coordinateAgentResponses ::
  "Env \<Rightarrow> AgentResponse list \<Rightarrow> jsstring \<Rightarrow> jsstring \<Rightarrow> CrewAIService \<Rightarrow> jsstring \<times> CrewAIService" where
  "coordinateAgentResponses env agentResponses userQuery goalType s =
     (case callOpenAI env (coordinationPrompt agentResponses userQuery goalType) s of
        (Inr coordinatedResponse, s1) \<Rightarrow> (coordinatedResponse, s1)
      | (Inl e, s1) \<Rightarrow> (combineManually agentResponses, s1))"

section \<open>executeCrew\<close>

text \<open>
  The \<open>for\<close> loop over \<open>crewConfig.tasks\<close>. \<open>crewConfig.agents[task.agent]\<close> is
  \<open>undefined\<close> for a key that the crew does not define, and \<open>executeAgentTask\<close> then
  throws a \<open>TypeError\<close> on \<open>agent.role\<close>.
\<close>

fun runTasks ::
  "Env \<Rightarrow> CrewConfig \<Rightarrow> Task list \<Rightarrow> jsstring \<Rightarrow> Context \<Rightarrow> AgentResponse list \<Rightarrow> CrewAIService
     \<Rightarrow> (error + AgentResponse list) \<times> CrewAIService" where
  "runTasks env crewConfig [] userQuery ctx agentResults s = (Inr agentResults, s)"
| "runTasks env crewConfig (task # rest) userQuery ctx agentResults s =
     (case agents crewConfig (Task.agent task) of
        None \<Rightarrow> (Inl TypeError, s)
      | Some agentCfg \<Rightarrow>
          (case executeAgentTask env agentCfg task userQuery ctx agentResults s of
             (Inl e, s1) \<Rightarrow> (Inl e, s1)
           | (Inr agentResponse, s1) \<Rightarrow>
               runTasks env crewConfig rest userQuery ctx (agentResults @ [agentResponse]) s1))"

text \<open>
  The body of \<open>executeCrew\<close> once \<open>isConfigured()\<close> holds, with the \<open>crewConfig\<close> chosen
  at its first statement as a parameter. An error thrown inside the \<open>try\<close> is answered by
  \<open>getFallbackCrewExecution\<close>.
\<close>

definition executeCrewConfig ::
  "Env \<Rightarrow> CrewConfig \<Rightarrow> GoalType \<Rightarrow> jsstring \<Rightarrow> Context \<Rightarrow> CrewAIService
     \<Rightarrow> CrewExecution \<times> CrewAIService" where
  "executeCrewConfig env crewConfig goalType userQuery ctx s =
     (let (startTime, s0) = now env s;
          s1 = s0\<lparr>userContext := (userContext s0)(goalTypeName goalType @ lit ''_context'' \<mapsto> ctx)\<rparr>
      in case runTasks env crewConfig (tasks crewConfig) userQuery ctx [] s1 of
           (Inl e, s2) \<Rightarrow>
             (getFallbackCrewExecution env (goalTypeName goalType) userQuery ctx, s2)
         | (Inr agentResults, s2) \<Rightarrow>
             (let (output, s3) =
                    coordinateAgentResponses env agentResults userQuery (goalTypeName goalType) s2;
                  (endTime, s4) = now env s3
              in (\<lparr>results = agentResults,
                   finalOutput = output,
                   executionTime = endTime - startTime,
                   success = True\<rparr>, s4)))"

definition crewConfigOf :: "GoalType \<Rightarrow> CrewConfig" where
  "crewConfigOf goalType =
     (if goalType = sleep_tracking then getSleepTrackingCrew else getStepsTrackingCrew)"

definition executeCrew ::
  "Env \<Rightarrow> GoalType \<Rightarrow> jsstring \<Rightarrow> Context \<Rightarrow> CrewAIService \<Rightarrow> CrewExecution \<times> CrewAIService" where
  "executeCrew env goalType userQuery ctx s =
     (if \<not> isConfigured s
      then (getFallbackCrewExecution env (goalTypeName goalType) userQuery ctx, s)
      else executeCrewConfig env (crewConfigOf goalType) goalType userQuery ctx s)"

definition getSleepCoaching ::
  "Env \<Rightarrow> jsstring \<Rightarrow> Context \<Rightarrow> CrewAIService \<Rightarrow> CrewExecution \<times> CrewAIService" where
  "getSleepCoaching env userQuery sleepContext s = executeCrew env sleep_tracking userQuery sleepContext s"

definition getStepsCoaching ::
  "Env \<Rightarrow> jsstring \<Rightarrow> Context \<Rightarrow> CrewAIService \<Rightarrow> CrewExecution \<times> CrewAIService" where
  "getStepsCoaching env userQuery stepsContext s = executeCrew env daily_steps userQuery stepsContext s"

section \<open>Notions used in the statements\<close>

text \<open>The \<open>k\<close> lines that follow the first occurrence of the line \<open>h\<close>.\<close>

definition linesAfter :: "'a list \<Rightarrow> 'a \<Rightarrow> nat \<Rightarrow> 'a list" where
  "linesAfter ls h k = take k (drop (nat (indexOf ls h + 1)) ls)"

text \<open>A line whose first code unit is a marker that the parser accepts.\<close>

definition beginsWithMarker :: "jsstring \<Rightarrow> bool" where
  "beginsWithMarker l = (case l of [] \<Rightarrow> False | c # cs \<Rightarrow> c = 45 \<or> c = bullet)"

text \<open>Answers of an agent, as texts on which the parser is run.\<close>

definition sampleStructured :: jsstring where
  "sampleStructured =
     lit ''**Recommendations**:\<newline>''
     @ lit ''- Walk daily\<newline>''
     @ lit ''- Sleep early\<newline>''
     @ lit ''- Drink water\<newline>''
     @ lit ''**Insights**:\<newline>''
     @ lit ''- You are consistent''"

definition samplePlainHeading :: jsstring where
  "samplePlainHeading =
     lit ''Recommendations:\<newline>''
     @ lit ''- Walk daily\<newline>''
     @ lit ''- Sleep early\<newline>''
     @ lit ''- Drink water''"

definition sampleStars :: jsstring where
  "sampleStars =
     lit ''**Recommendations**:\<newline>''
     @ lit ''* Walk daily\<newline>''
     @ lit ''* Sleep early\<newline>''
     @ lit ''* Drink water''"

definition sampleThree :: jsstring where
  "sampleThree =
     lit ''Here is my advice.\<newline>''
     @ lit ''\<newline>''
     @ lit ''**Recommendations**:\<newline>''
     @ lit ''- Walk daily\<newline>''
     @ [bullet] @ lit '' Sleep early\<newline>''
     @ lit ''-Drink water\<newline>''
     @ lit ''Keep going!''"

definition sampleMixed :: jsstring where
  "sampleMixed =
     lit ''**Insights**:\<newline>''
     @ [bullet] @ lit '' Steady pace\<newline>''
     @ lit ''- Early nights\<newline>''
     @ lit ''* Less coffee''"

text \<open>The role of the agent that a task of a crew names, when the crew defines it.\<close>

definition taskRole :: "CrewConfig \<Rightarrow> Task \<Rightarrow> jsstring option" where
  "taskRole crewConfig task = map_option role (agents crewConfig (Task.agent task))"

text \<open>What \<open>formatContextForAgent\<close> returns for a role that matches none of its words.\<close>

definition contextNotAvailable :: jsstring where
  "contextNotAvailable = lit ''Context not available for this agent type.''"

definition plainRole :: "jsstring \<Rightarrow> bool" where
  "plainRole r =
     (\<not> includes_str r (lit ''sleep'') \<and> \<not> includes_str r (lit ''activity'')
      \<and> \<not> includes_str r (lit ''movement'') \<and> \<not> includes_str r (lit ''wellness''))"

definition plainTask :: "CrewConfig \<Rightarrow> Task \<Rightarrow> bool" where
  "plainTask crewConfig task =
     (case agents crewConfig (Task.agent task) of
        None \<Rightarrow> False
      | Some agentCfg \<Rightarrow> plainRole (role agentCfg))"

text \<open>
  A sequence of calls of \<open>executeAgentTask\<close>, each with its own arguments, run one after
  the other on the service, whatever each call returns.
\<close>

type_synonym Job = "AgentConfig \<times> Task \<times> jsstring \<times> Context \<times> AgentResponse list"

fun runJobs :: "Env \<Rightarrow> Job list \<Rightarrow> CrewAIService \<Rightarrow> CrewAIService" where
  "runJobs env [] s = s"
| "runJobs env ((agentCfg, task, userQuery, ctx, previousResults) # jobs) s =
     runJobs env jobs (snd (executeAgentTask env agentCfg task userQuery ctx previousResults s))"

text \<open>
  The memory entry that a call inserts: none when the prompt cannot be built or the
  completion call fails, and otherwise the query, the text of the completion, the time of
  the insertion and the context.
\<close>

definition insertedEntry :: "Env \<Rightarrow> Job \<Rightarrow> CrewAIService \<Rightarrow> MemoryEntry option" where
  "insertedEntry env job s =
     (case job of (agentCfg, task, userQuery, ctx, previousResults) \<Rightarrow>
        (case createAgentPrompt env agentCfg task userQuery ctx
                (join_str (lit ''\<newline>\<newline>'') (map response previousResults))
                (getAgentMemory s (role agentCfg)) of
           Inl e \<Rightarrow> None
         | Inr prompt \<Rightarrow>
             (case completion env (length (requests s)) prompt of
                Inl e \<Rightarrow> None
              | Inr reply \<Rightarrow>
                  Some \<lparr>query = userQuery, MemoryEntry.response = reply,
                        timestamp = clock env (clockReads s), context' = ctx\<rparr>)))"

text \<open>The entries that a sequence of calls inserts for the role \<open>r\<close>, in the order of insertion.\<close>

fun insertedEntries :: "Env \<Rightarrow> Job list \<Rightarrow> CrewAIService \<Rightarrow> jsstring \<Rightarrow> MemoryEntry list" where
  "insertedEntries env [] s r = []"
| "insertedEntries env ((agentCfg, task, userQuery, ctx, previousResults) # jobs) s r =
     (case insertedEntry env (agentCfg, task, userQuery, ctx, previousResults) s of
        None \<Rightarrow> []
      | Some entry \<Rightarrow> if role agentCfg = r then [entry] else [])
     @ insertedEntries env jobs
         (snd (executeAgentTask env agentCfg task userQuery ctx previousResults s)) r"

text \<open>The first line of the message of the whole-crew fallback, for each goal.\<close>

fun fallbackHeader :: "GoalType \<Rightarrow> jsstring" where
  "fallbackHeader sleep_tracking = [55357, 56884] @ lit '' **Sleep optimization Plan**''"
| "fallbackHeader daily_steps = [55357, 57014, 8205, 9792, 65039] @ lit '' **Daily movement Plan**''"

text \<open>The numbered list of the first five pooled recommendations, and a bulleted list.\<close>

definition recommendationsBlock :: "AgentResponse list \<Rightarrow> jsstring" where
  "recommendationsBlock agentResults =
     join_str [LF] (numbered (take 5 (concat (map recommendations agentResults))))"

definition bulletBlock :: "jsstring list \<Rightarrow> jsstring" where
  "bulletBlock items = join_str [LF] (map (\<lambda>item. [bullet] @ lit '' '' @ item) items)"

text \<open>Every text that a crew execution carries.\<close>

definition executionTexts :: "CrewExecution \<Rightarrow> jsstring list" where
  "executionTexts exec =
     finalOutput exec
     # concat (map (\<lambda>r. agent r # response r
                          # actionItems r @ insights r @ recommendations r @ nextSteps r)
                   (results exec))"

text \<open>Environments, contexts and services on which the model is run.\<close>

definition answeringEnv :: Env where
  "answeringEnv =
     \<lparr>completion = (\<lambda>n prompt. Inr (lit ''Answer '' @ decimal n)),
      clock = (\<lambda>n. 1000 + 250 * int n),
      localeString = numberToString\<rparr>"

definition failingEnv :: Env where
  "failingEnv =
     \<lparr>completion = (\<lambda>n prompt. Inl (Error (lit ''OpenAI API error: 503 - ''))),
      clock = (\<lambda>n. 1000 + 250 * int n),
      localeString = numberToString\<rparr>"

definition liveService :: CrewAIService where
  "liveService = newCrewAIService (Some (lit ''sk-proj-0123456789abcdefghij''))"

definition idleService :: CrewAIService where
  "idleService = newCrewAIService None"

definition noContext :: Context where
  "noContext = (\<lambda>name. JUndefined)"

text \<open>The numbers 7 and 0, and contexts that hold them as the target sleep hours.\<close>

definition numberSeven :: jsnumber where
  "numberSeven = Number False (lit ''7'')"

definition numberZero :: jsnumber where
  "numberZero = Number True (lit ''0'')"

definition sevenHours :: Context where
  "sevenHours = noContext(lit ''targetSleepHours'' := JNum numberSeven)"

definition zeroHours :: Context where
  "zeroHours = noContext(lit ''targetSleepHours'' := JNum numberZero)"

text \<open>A completion that succeeds with the empty text.\<close>

definition silentEnv :: Env where
  "silentEnv =
     \<lparr>completion = (\<lambda>n prompt. Inr []),
      clock = (\<lambda>n. 1000 + 250 * int n),
      localeString = numberToString\<rparr>"

definition twelveJobs :: "Job list" where
  "twelveJobs =
     map (\<lambda>n. (sleep_analyst, sleep_analyst_task, lit ''Question '' @ decimal n, noContext, []))
       [1, 2, 3, 4, 5, 6, 7, 8, 9, 10, 11, 12]"

text \<open>
  The service when the loop of \<open>executeCrew\<close> starts: the clock has been read once and the
  context is stored under the key of the goal.
\<close>

definition crewStart :: "GoalType \<Rightarrow> Context \<Rightarrow> CrewAIService \<Rightarrow> CrewAIService" where
  "crewStart goalType ctx s =
     s\<lparr>clockReads := Suc (clockReads s),
       userContext := (userContext s)(goalTypeName goalType @ lit ''_context'' \<mapsto> ctx)\<rparr>"

definition sampleQuery :: jsstring where
  "sampleQuery = lit ''How can I sleep better?''"

text \<open>The responses of the whole-crew fallback for the sleep goal.\<close>

definition sleepFallback :: "AgentResponse list" where
  "sleepFallback = getFallbackResponses answeringEnv (lit ''sleep_tracking'') sampleQuery sevenHours"

section \<open>Lemmas on arrays, strings and the parser\<close>

lemma slice_take_drop:
  "slice xs (int a) (int a + int k) = take k (drop a xs)"
proof (cases "a \<le> length xs")
  case True
  then show ?thesis
    by (cases "a + k \<le> length xs") (simp_all add: slice_def Let_def min_def nat_diff_distrib' )
next
  case False
  then show ?thesis by (simp add: slice_def Let_def min_def)
qed

lemma slice_prefix: "slice xs 0 (int k) = take k xs"
  using slice_take_drop [of xs 0 k] by simp

lemma slice_0_3: "slice xs 0 3 = take 3 xs"
  using slice_prefix [of xs 3] by simp

lemma slice_0_5: "slice xs 0 5 = take 5 xs"
  using slice_prefix [of xs 5] by simp

lemma indexOf_ge: "- 1 \<le> indexOf xs y"
  by (induction xs) (auto simp: Let_def)

lemma indexOf_notin: "y \<notin> set xs \<Longrightarrow> indexOf xs y = - 1"
  by (induction xs) (auto simp: Let_def)

lemma indexOf_first: "y \<notin> set pre \<Longrightarrow> indexOf (pre @ y # post) y = int (length pre)"
  by (induction pre) (auto simp: Let_def)

lemma parseLine_fields:
  "v_recommendations (parseLine ls vars x) =
     (if isRecommendationsHeading x then collectBullets ls x 6 else v_recommendations vars)"
  "v_insights (parseLine ls vars x) =
     (if isInsightsHeading x then collectBullets ls x 4 else v_insights vars)"
  "v_nextSteps (parseLine ls vars x) =
     (if isNextStepsHeading x then collectBullets ls x 4 else v_nextSteps vars)"
  "v_actionItems (parseLine ls vars x) = v_actionItems vars"
  by (simp_all add: parseLine_def Let_def)

lemma foldl_parseLine_recommendations:
  "v_recommendations (foldl (parseLine ls) vars xs) =
     (case filter isRecommendationsHeading xs of
        [] \<Rightarrow> v_recommendations vars
      | h # hs \<Rightarrow> collectBullets ls (last (h # hs)) 6)"
proof (induction xs arbitrary: vars)
  case Nil
  then show ?case by simp
next
  case (Cons x xs)
  show ?case
    by (cases "filter isRecommendationsHeading xs") (simp_all add: Cons.IH parseLine_fields)
qed

lemma foldl_parseLine_insights:
  "v_insights (foldl (parseLine ls) vars xs) =
     (case filter isInsightsHeading xs of
        [] \<Rightarrow> v_insights vars
      | h # hs \<Rightarrow> collectBullets ls (last (h # hs)) 4)"
proof (induction xs arbitrary: vars)
  case Nil
  then show ?case by simp
next
  case (Cons x xs)
  show ?case
    by (cases "filter isInsightsHeading xs") (simp_all add: Cons.IH parseLine_fields)
qed

lemma foldl_parseLine_nextSteps:
  "v_nextSteps (foldl (parseLine ls) vars xs) =
     (case filter isNextStepsHeading xs of
        [] \<Rightarrow> v_nextSteps vars
      | h # hs \<Rightarrow> collectBullets ls (last (h # hs)) 4)"
proof (induction xs arbitrary: vars)
  case Nil
  then show ?case by simp
next
  case (Cons x xs)
  show ?case
    by (cases "filter isNextStepsHeading xs") (simp_all add: Cons.IH parseLine_fields)
qed

lemma foldl_parseLine_actionItems:
  "v_actionItems (foldl (parseLine ls) vars xs) = v_actionItems vars"
  by (induction xs arbitrary: vars) (simp_all add: parseLine_fields)

lemma collectBullets_linesAfter:
  "collectBullets ls h (int k + 1) =
     map (\<lambda>l. trim (stripMarker l)) (filter isBulletLine (linesAfter ls h k))"
proof -
  have "0 \<le> indexOf ls h + 1" using indexOf_ge [of ls h] by simp
  then obtain a where a: "indexOf ls h + 1 = int a" using nonneg_int_cases by blast
  have b: "indexOf ls h + (int k + 1) = int a + int k" using a by simp
  have "slice ls (indexOf ls h + 1) (indexOf ls h + (int k + 1)) = take k (drop a ls)"
    unfolding a b by (rule slice_take_drop)
  then show ?thesis by (simp add: collectBullets_def linesAfter_def a)
qed

lemma collectBullets_6: "collectBullets ls h 6 =
     map (\<lambda>l. trim (stripMarker l)) (filter isBulletLine (linesAfter ls h 5))"
  using collectBullets_linesAfter [of ls h 5] by simp

lemma collectBullets_4: "collectBullets ls h 4 =
     map (\<lambda>l. trim (stripMarker l)) (filter isBulletLine (linesAfter ls h 3))"
  using collectBullets_linesAfter [of ls h 3] by simp

lemma dropWhile_snoc: "\<not> P c \<Longrightarrow> dropWhile P (xs @ [c]) = dropWhile P xs @ [c]"
  by (induction xs) auto

lemma trim_Cons: "\<not> isWhiteSpace c \<Longrightarrow> trim (c # cs) = c # rev (dropWhile isWhiteSpace (rev cs))"
  by (simp add: trim_def dropWhile_snoc)

lemma trim_dropWhile: "trim (dropWhile isWhiteSpace cs) = trim cs"
  by (simp add: trim_def dropWhile_idem)

lemma marker_not_space: "c = 45 \<or> c = bullet \<Longrightarrow> \<not> isWhiteSpace c"
  by (auto simp: isWhiteSpace_def bullet_def)

lemma startsWith_single: "startsWith s [c] = (case s of [] \<Rightarrow> False | d # ds \<Rightarrow> d = c)"
  by (cases s) (simp_all add: startsWith_def)

lemma isBulletLine_iff:
  "isBulletLine l = (case trim l of [] \<Rightarrow> False | c # cs \<Rightarrow> c = 45 \<or> c = bullet)"
  by (cases "trim l") (simp_all add: isBulletLine_def startsWith_single lit_def)

lemma beginsWithMarker_isBulletLine: "beginsWithMarker l \<Longrightarrow> isBulletLine l"
  by (cases l) (auto simp: beginsWithMarker_def isBulletLine_iff trim_Cons marker_not_space)

lemma beginsWithMarker_strip: "beginsWithMarker l \<Longrightarrow> trim (stripMarker l) = trim (tl l)"
  by (cases l) (auto simp: beginsWithMarker_def trim_dropWhile)

lemma star_not_bullet: "\<not> isBulletLine (lit ''*'' @ cs)"
proof -
  have "\<not> isWhiteSpace 42" by (simp add: isWhiteSpace_def)
  then show ?thesis by (simp add: isBulletLine_iff lit_def trim_Cons bullet_def)
qed

lemma parse_fields:
  "recommendations (parseAgentResponse text agentRole) =
     (case filter isRecommendationsHeading (responseLines text) of
        [] \<Rightarrow> []
      | h # hs \<Rightarrow> collectBullets (responseLines text) (last (h # hs)) 6)"
  "insights (parseAgentResponse text agentRole) =
     (case filter isInsightsHeading (responseLines text) of
        [] \<Rightarrow> []
      | h # hs \<Rightarrow> collectBullets (responseLines text) (last (h # hs)) 4)"
  "nextSteps (parseAgentResponse text agentRole) =
     (case filter isNextStepsHeading (responseLines text) of
        [] \<Rightarrow> []
      | h # hs \<Rightarrow> collectBullets (responseLines text) (last (h # hs)) 4)"
  "response (parseAgentResponse text agentRole) = text"
  "agent (parseAgentResponse text agentRole) = agentRole"
  "confidence (parseAgentResponse text agentRole) = 0.85"
  by (simp_all add: parseAgentResponse_def Let_def foldl_parseLine_recommendations
        foldl_parseLine_insights foldl_parseLine_nextSteps initialVars_def split: list.split)

lemma filter_single_heading:
  assumes "P h" and "list_all (\<lambda>l. \<not> P l) (pre @ rest)"
  shows "filter P (pre @ h # rest) = [h]"
  using assms by (simp add: list_all_iff)

lemma linesAfter_first:
  assumes "h \<notin> set pre"
  shows "linesAfter (pre @ h # rest) h k = take k rest"
proof -
  have "nat (int (length pre) + 1) = Suc (length pre)" by simp
  then show ?thesis using assms by (simp add: linesAfter_def indexOf_first)
qed

section \<open>The response parser\<close>

text \<open>
  Claim C9. On every text, the action items returned are the first three extracted
  recommendations. A \<open>**Next Steps**:\<close> or \<open>**Action\<close> heading assigns \<open>nextSteps\<close> only.
\<close>

theorem parse_actionItems_from_recommendations:
  "actionItems (parseAgentResponse text agentRole) =
     take 3 (recommendations (parseAgentResponse text agentRole))
   \<and> nextSteps (parseAgentResponse text agentRole) =
     (case filter isNextStepsHeading (responseLines text) of
        [] \<Rightarrow> []
      | h # hs \<Rightarrow> collectBullets (responseLines text) (last (h # hs)) 4)"
  by (simp add: parseAgentResponse_def Let_def foldl_parseLine_actionItems
        foldl_parseLine_nextSteps initialVars_def slice_0_3 split: list.split)

text \<open>
  Claim C5 as stated fails. In the first text the heading is followed by three bulleted
  lines and then by the next section: the parser takes the bulleted lines among the five
  lines after the heading, so the first insight is extracted as a fourth recommendation.
  In the second text the heading is written without the asterisks that the parser looks
  for, and nothing is extracted.
\<close>

theorem three_bullets_counterexample:
  "recommendations (parseAgentResponse sampleStructured (lit ''Sleep Quality Analyst''))
     = [lit ''Walk daily'', lit ''Sleep early'', lit ''Drink water'', lit ''You are consistent'']
   \<and> recommendations (parseAgentResponse sampleStructured (lit ''Sleep Quality Analyst''))
     \<noteq> [lit ''Walk daily'', lit ''Sleep early'', lit ''Drink water'']
   \<and> recommendations (parseAgentResponse samplePlainHeading (lit ''Sleep Quality Analyst'')) = []"
  by code_simp

text \<open>
  Claim C5, amended. Let the lines of the text that are not blank hold exactly one line with
  the heading marker \<open>**Recommendation\<close> (which \<open>**Recommendations**:\<close> contains), let the
  three lines after it begin with \<open>-\<close> or the bullet, and let neither of the two lines after
  those be a bulleted line. Then the extracted recommendations are those three lines, each
  without its marker and trimmed, in their order. When no line holds the marker, the list
  is empty. In every case the parser returns, with the raw text in the response field.
\<close>

theorem parse_recommendations_three_bullets:
  "(responseLines text = pre @ h # b1 # b2 # b3 # post
      \<and> isRecommendationsHeading h
      \<and> list_all (\<lambda>l. \<not> isRecommendationsHeading l) (pre @ b1 # b2 # b3 # post)
      \<and> list_all beginsWithMarker [b1, b2, b3]
      \<and> list_all (\<lambda>l. \<not> isBulletLine l) (take 2 post)
    \<longrightarrow> recommendations (parseAgentResponse text agentRole) = map (\<lambda>l. trim (tl l)) [b1, b2, b3])
   \<and> (list_all (\<lambda>l. \<not> isRecommendationsHeading l) (responseLines text)
    \<longrightarrow> recommendations (parseAgentResponse text agentRole) = [])
   \<and> response (parseAgentResponse text agentRole) = text"
proof (intro conjI impI)
  assume a: "responseLines text = pre @ h # b1 # b2 # b3 # post
      \<and> isRecommendationsHeading h
      \<and> list_all (\<lambda>l. \<not> isRecommendationsHeading l) (pre @ b1 # b2 # b3 # post)
      \<and> list_all beginsWithMarker [b1, b2, b3]
      \<and> list_all (\<lambda>l. \<not> isBulletLine l) (take 2 post)"
  let ?rest = "b1 # b2 # b3 # post"
  from a have ls: "responseLines text = pre @ h # ?rest" by simp
  from a have hd: "isRecommendationsHeading h" by simp
  from a have others: "list_all (\<lambda>l. \<not> isRecommendationsHeading l) (pre @ ?rest)" by simp
  from a have bs: "isBulletLine b1" "isBulletLine b2" "isBulletLine b3"
    by (simp_all add: beginsWithMarker_isBulletLine)
  from a have strip: "trim (stripMarker b1) = trim (tl b1)" "trim (stripMarker b2) = trim (tl b2)"
      "trim (stripMarker b3) = trim (tl b3)"
    by (simp_all add: beginsWithMarker_strip)
  from a have post: "filter isBulletLine (take 2 post) = []"
    by (simp add: list_all_iff)
  have one: "filter isRecommendationsHeading (responseLines text) = [h]"
    unfolding ls using hd others by (rule filter_single_heading)
  have "h \<notin> set pre" using hd others by (auto simp: list_all_iff)
  then have win: "linesAfter (responseLines text) h 5 = b1 # b2 # b3 # take 2 post"
    unfolding ls by (simp add: linesAfter_first)
  show "recommendations (parseAgentResponse text agentRole) = map (\<lambda>l. trim (tl l)) [b1, b2, b3]"
    by (simp add: parse_fields one collectBullets_6 win bs strip post)
next
  assume "list_all (\<lambda>l. \<not> isRecommendationsHeading l) (responseLines text)"
  then have "filter isRecommendationsHeading (responseLines text) = []"
    by (simp add: list_all_iff)
  then show "recommendations (parseAgentResponse text agentRole) = []"
    by (simp add: parse_fields)
next
  show "response (parseAgentResponse text agentRole) = text"
    by (simp add: parse_fields)
qed

text \<open>
  The theorem at a text with one heading, a bullet of each accepted style and a closing
  line, and at a text with no heading.
\<close>

theorem parse_recommendations_three_bullets_witness:
  "responseLines sampleThree =
     [lit ''Here is my advice.''] @ lit ''**Recommendations**:'' # lit ''- Walk daily''
       # ([bullet] @ lit '' Sleep early'') # lit ''-Drink water'' # [lit ''Keep going!'']
   \<and> recommendations (parseAgentResponse sampleThree (lit ''Sleep Quality Analyst''))
     = [lit ''Walk daily'', lit ''Sleep early'', lit ''Drink water'']
   \<and> list_all (\<lambda>l. \<not> isRecommendationsHeading l) (responseLines (lit ''Just keep walking.''))
   \<and> recommendations (parseAgentResponse (lit ''Just keep walking.'') (lit ''Sleep Quality Analyst'')) = []
   \<and> response (parseAgentResponse (lit ''Just keep walking.'') (lit ''Sleep Quality Analyst''))
     = lit ''Just keep walking.''"
proof -
  let ?pre = "[lit ''Here is my advice.'']"
  let ?h = "lit ''**Recommendations**:''"
  let ?b1 = "lit ''- Walk daily''"
  let ?b2 = "[bullet] @ lit '' Sleep early''"
  let ?b3 = "lit ''-Drink water''"
  let ?post = "[lit ''Keep going!'']"
  have 1: "responseLines sampleThree = ?pre @ ?h # ?b1 # ?b2 # ?b3 # ?post"
    by code_simp
  have 2: "isRecommendationsHeading ?h" by code_simp
  have 3: "list_all (\<lambda>l. \<not> isRecommendationsHeading l) (?pre @ ?b1 # ?b2 # ?b3 # ?post)"
    by code_simp
  have 4: "list_all beginsWithMarker [?b1, ?b2, ?b3]" by code_simp
  have 5: "list_all (\<lambda>l. \<not> isBulletLine l) (take 2 ?post)" by code_simp
  have 6: "map (\<lambda>l. trim (tl l)) [?b1, ?b2, ?b3]
             = [lit ''Walk daily'', lit ''Sleep early'', lit ''Drink water'']"
    by code_simp
  have 7: "list_all (\<lambda>l. \<not> isRecommendationsHeading l) (responseLines (lit ''Just keep walking.''))"
    by code_simp
  note A = parse_recommendations_three_bullets
             [of sampleThree ?pre ?h ?b1 ?b2 ?b3 ?post "lit ''Sleep Quality Analyst''"]
  note B = parse_recommendations_three_bullets
             [of "lit ''Just keep walking.''" _ _ _ _ _ _ "lit ''Sleep Quality Analyst''"]
  from A 1 2 3 4 5 6
  have a: "recommendations (parseAgentResponse sampleThree (lit ''Sleep Quality Analyst''))
             = [lit ''Walk daily'', lit ''Sleep early'', lit ''Drink water'']"
    by presburger
  from B 7
  have b: "recommendations (parseAgentResponse (lit ''Just keep walking.'') (lit ''Sleep Quality Analyst'')) = []"
    "response (parseAgentResponse (lit ''Just keep walking.'') (lit ''Sleep Quality Analyst''))
     = lit ''Just keep walking.''"
    by blast+
  show ?thesis using 1 a 7 b by blast
qed

text \<open>
  Claim C6 as stated fails: of a heading followed by three lines that begin with \<open>*\<close>,
  nothing is collected.
\<close>

theorem star_marker_counterexample:
  "recommendations (parseAgentResponse sampleStars (lit ''Sleep Quality Analyst'')) = []
   \<and> recommendations (parseAgentResponse sampleStars (lit ''Sleep Quality Analyst''))
     \<noteq> [lit ''Walk daily'', lit ''Sleep early'', lit ''Drink water'']"
  by code_simp

text \<open>
  Claim C6, amended. The parser accepts the two markers \<open>-\<close> and the bullet U+2022, not
  \<open>*\<close>. The field of a section holds the lines, among the five (recommendations) or three
  (insights, next steps) lines that follow the first occurrence of the last line matching
  the heading, whose first character after leading white space is \<open>-\<close> or the bullet. A
  line that begins with the marker is collected without the marker and without the white
  space around its text. A line that begins with \<open>*\<close> is never collected. The parser is a
  total function: it returns on every text.
\<close>

theorem parser_bullet_markers:
  "recommendations (parseAgentResponse text agentRole) =
     (case filter isRecommendationsHeading (responseLines text) of
        [] \<Rightarrow> []
      | h # hs \<Rightarrow> map (\<lambda>l. trim (stripMarker l))
                    (filter isBulletLine (linesAfter (responseLines text) (last (h # hs)) 5)))
   \<and> insights (parseAgentResponse text agentRole) =
     (case filter isInsightsHeading (responseLines text) of
        [] \<Rightarrow> []
      | h # hs \<Rightarrow> map (\<lambda>l. trim (stripMarker l))
                    (filter isBulletLine (linesAfter (responseLines text) (last (h # hs)) 3)))
   \<and> nextSteps (parseAgentResponse text agentRole) =
     (case filter isNextStepsHeading (responseLines text) of
        [] \<Rightarrow> []
      | h # hs \<Rightarrow> map (\<lambda>l. trim (stripMarker l))
                    (filter isBulletLine (linesAfter (responseLines text) (last (h # hs)) 3)))
   \<and> isBulletLine l = (case trim l of [] \<Rightarrow> False | c # cs \<Rightarrow> c = 45 \<or> c = bullet)
   \<and> (beginsWithMarker l \<longrightarrow> isBulletLine l \<and> trim (stripMarker l) = trim (tl l))
   \<and> \<not> isBulletLine (lit ''*'' @ rest)"
  by (simp add: parse_fields collectBullets_6 collectBullets_4 star_not_bullet
        beginsWithMarker_isBulletLine beginsWithMarker_strip isBulletLine_iff [symmetric]
      split: list.split)

text \<open>
  The theorem at a text whose insights use the bullet, the dash and the asterisk.
\<close>

theorem parser_bullet_markers_witness:
  "insights (parseAgentResponse sampleMixed (lit ''Sleep Quality Analyst''))
     = [lit ''Steady pace'', lit ''Early nights'']
   \<and> beginsWithMarker (lit ''- Early nights'')
   \<and> isBulletLine (lit ''- Early nights'')
   \<and> trim (stripMarker (lit ''- Early nights'')) = lit ''Early nights''
   \<and> \<not> isBulletLine (lit ''* Less coffee'')"
proof -
  note A = parser_bullet_markers
             [of sampleMixed "lit ''Sleep Quality Analyst''" "lit ''- Early nights''" "lit '' Less coffee''"]
  have 1: "filter isInsightsHeading (responseLines sampleMixed) = [lit ''**Insights**:'']"
    by code_simp
  have 2: "map (\<lambda>l. trim (stripMarker l))
             (filter isBulletLine (linesAfter (responseLines sampleMixed) (lit ''**Insights**:'') 3))
           = [lit ''Steady pace'', lit ''Early nights'']"
    by code_simp
  have 3: "beginsWithMarker (lit ''- Early nights'')" by code_simp
  have 4: "trim (tl (lit ''- Early nights'')) = lit ''Early nights''" by code_simp
  have 5: "lit ''*'' @ lit '' Less coffee'' = lit ''* Less coffee''" by code_simp
  from A have "insights (parseAgentResponse sampleMixed (lit ''Sleep Quality Analyst''))
     = [lit ''Steady pace'', lit ''Early nights'']"
    by (simp add: 1 2)
  moreover from A 3 have "isBulletLine (lit ''- Early nights'')
      \<and> trim (stripMarker (lit ''- Early nights'')) = trim (tl (lit ''- Early nights''))"
    by blast
  then have "isBulletLine (lit ''- Early nights'')
      \<and> trim (stripMarker (lit ''- Early nights'')) = lit ''Early nights''"
    unfolding 4 .
  moreover from A have "\<not> isBulletLine (lit ''*'' @ lit '' Less coffee'')" by blast
  then have "\<not> isBulletLine (lit ''* Less coffee'')" unfolding 5 .
  ultimately show ?thesis using 3 by blast
qed

section \<open>Lemmas on the execution of tasks\<close>

lemma executeAgentTask_promptError:
  assumes "createAgentPrompt env agentCfg task userQuery ctx
             (join_str (lit ''\<newline>\<newline>'') (map response previousResults))
             (getAgentMemory s (role agentCfg)) = Inl e"
  shows "executeAgentTask env agentCfg task userQuery ctx previousResults s = (Inl e, s)"
  using assms by (simp add: executeAgentTask_def Let_def)

lemma executeAgentTask_failure:
  assumes "createAgentPrompt env agentCfg task userQuery ctx
             (join_str (lit ''\<newline>\<newline>'') (map response previousResults))
             (getAgentMemory s (role agentCfg)) = Inr prompt"
    and "completion env (length (requests s)) prompt = Inl e"
  shows "executeAgentTask env agentCfg task userQuery ctx previousResults s =
           (Inr (getFallbackAgentResponse (role agentCfg) userQuery ctx),
            s\<lparr>requests := requests s @ [prompt]\<rparr>)"
  using assms by (simp add: executeAgentTask_def Let_def callOpenAI_def)

lemma executeAgentTask_success:
  assumes "createAgentPrompt env agentCfg task userQuery ctx
             (join_str (lit ''\<newline>\<newline>'') (map response previousResults))
             (getAgentMemory s (role agentCfg)) = Inr prompt"
    and "completion env (length (requests s)) prompt = Inr text"
  shows "executeAgentTask env agentCfg task userQuery ctx previousResults s =
           (Inr (parseAgentResponse text (role agentCfg)),
            s\<lparr>requests := requests s @ [prompt],
              clockReads := Suc (clockReads s),
              agentMemory := (agentMemory s)(role agentCfg \<mapsto>
                 pushMemory (getAgentMemory s (role agentCfg))
                   \<lparr>query = userQuery, MemoryEntry.response = text,
                    timestamp = clock env (clockReads s), context' = ctx\<rparr>)\<rparr>)"
  using assms by (simp add: executeAgentTask_def Let_def callOpenAI_def now_def parse_fields)

lemma executeAgentTask_Inr:
  assumes "executeAgentTask env agentCfg task userQuery ctx previousResults s = (Inr r, s1)"
  shows "\<exists>prompt. createAgentPrompt env agentCfg task userQuery ctx
             (join_str (lit ''\<newline>\<newline>'') (map response previousResults))
             (getAgentMemory s (role agentCfg)) = Inr prompt
           \<and> requests s1 = requests s @ [prompt]
           \<and> (\<forall>r'. r' \<noteq> role agentCfg \<longrightarrow> agentMemory s1 r' = agentMemory s r')"
proof (cases "createAgentPrompt env agentCfg task userQuery ctx
             (join_str (lit ''\<newline>\<newline>'') (map response previousResults))
             (getAgentMemory s (role agentCfg))")
  case (Inl e)
  from executeAgentTask_promptError [OF Inl] assms show ?thesis by simp
next
  case (Inr prompt)
  show ?thesis
  proof (cases "completion env (length (requests s)) prompt")
    case (Inl e)
    from executeAgentTask_failure [OF Inr Inl] assms Inr show ?thesis by auto
  next
    case r: (Inr reply)
    from executeAgentTask_success [OF Inr r] assms Inr show ?thesis by auto
  qed
qed

lemma runTasks_Inr:
  "runTasks env crewConfig ts userQuery ctx acc s = (Inr rs, s') \<Longrightarrow>
   \<exists>new ps. rs = acc @ new \<and> length new = length ts
      \<and> requests s' = requests s @ ps \<and> length ps = length ts
      \<and> (\<forall>r. Some r \<notin> set (map (taskRole crewConfig) ts) \<longrightarrow> agentMemory s' r = agentMemory s r)
      \<and> (distinct (map (taskRole crewConfig) ts) \<longrightarrow>
           (\<forall>i<length ts. \<exists>agentCfg. agents crewConfig (Task.agent (ts ! i)) = Some agentCfg
              \<and> createAgentPrompt env agentCfg (ts ! i) userQuery ctx
                   (join_str (lit ''\<newline>\<newline>'') (map response (acc @ take i new)))
                   (getAgentMemory s (role agentCfg)) = Inr (ps ! i)))"
proof (induction ts arbitrary: acc s)
  case Nil
  then show ?case by simp
next
  case (Cons t ts)
  from Cons.prems obtain agentCfg where a: "agents crewConfig (Task.agent t) = Some agentCfg"
    by (cases "agents crewConfig (Task.agent t)") auto
  from Cons.prems a obtain r s1 where
    step: "executeAgentTask env agentCfg t userQuery ctx acc s = (Inr r, s1)"
    and rest: "runTasks env crewConfig ts userQuery ctx (acc @ [r]) s1 = (Inr rs, s')"
    by (auto split: prod.splits sum.splits)
  from executeAgentTask_Inr [OF step] obtain prompt where
    p: "createAgentPrompt env agentCfg t userQuery ctx
             (join_str (lit ''\<newline>\<newline>'') (map response acc))
             (getAgentMemory s (role agentCfg)) = Inr prompt"
    and req1: "requests s1 = requests s @ [prompt]"
    and frame1: "\<forall>r'. r' \<noteq> role agentCfg \<longrightarrow> agentMemory s1 r' = agentMemory s r'"
    by blast
  from Cons.IH [OF rest] obtain new ps where
    rs: "rs = (acc @ [r]) @ new" and ln: "length new = length ts"
    and req: "requests s' = requests s1 @ ps" and lp: "length ps = length ts"
    and frame: "\<forall>r. Some r \<notin> set (map (taskRole crewConfig) ts) \<longrightarrow> agentMemory s' r = agentMemory s1 r"
    and prompts: "distinct (map (taskRole crewConfig) ts) \<longrightarrow>
           (\<forall>i<length ts. \<exists>agentCfg. agents crewConfig (Task.agent (ts ! i)) = Some agentCfg
              \<and> createAgentPrompt env agentCfg (ts ! i) userQuery ctx
                   (join_str (lit ''\<newline>\<newline>'') (map response ((acc @ [r]) @ take i new)))
                   (getAgentMemory s1 (role agentCfg)) = Inr (ps ! i))"
    by blast
  have tr: "taskRole crewConfig t = Some (role agentCfg)" by (simp add: taskRole_def a)
  have 1: "rs = acc @ (r # new)" using rs by simp
  have 2: "length (r # new) = length (t # ts)" using ln by simp
  have 3: "requests s' = requests s @ (prompt # ps)" using req req1 by simp
  have 4: "length (prompt # ps) = length (t # ts)" using lp by simp
  have 5: "\<forall>r. Some r \<notin> set (map (taskRole crewConfig) (t # ts)) \<longrightarrow> agentMemory s' r = agentMemory s r"
    using frame frame1 tr by auto
  have 6: "distinct (map (taskRole crewConfig) (t # ts)) \<longrightarrow>
           (\<forall>i<length (t # ts). \<exists>agentCfg. agents crewConfig (Task.agent ((t # ts) ! i)) = Some agentCfg
              \<and> createAgentPrompt env agentCfg ((t # ts) ! i) userQuery ctx
                   (join_str (lit ''\<newline>\<newline>'') (map response (acc @ take i (r # new))))
                   (getAgentMemory s (role agentCfg)) = Inr ((prompt # ps) ! i))"
  proof (intro impI allI)
    fix i
    assume d: "distinct (map (taskRole crewConfig) (t # ts))" and i: "i < length (t # ts)"
    show "\<exists>agentCfg. agents crewConfig (Task.agent ((t # ts) ! i)) = Some agentCfg
              \<and> createAgentPrompt env agentCfg ((t # ts) ! i) userQuery ctx
                   (join_str (lit ''\<newline>\<newline>'') (map response (acc @ take i (r # new))))
                   (getAgentMemory s (role agentCfg)) = Inr ((prompt # ps) ! i)"
    proof (cases i)
      case 0
      then show ?thesis using a p by simp
    next
      case (Suc j)
      with i have j: "j < length ts" by simp
      from d have dts: "distinct (map (taskRole crewConfig) ts)" by simp
      from prompts dts j obtain b where
        b: "agents crewConfig (Task.agent (ts ! j)) = Some b"
        and pb: "createAgentPrompt env b (ts ! j) userQuery ctx
                   (join_str (lit ''\<newline>\<newline>'') (map response ((acc @ [r]) @ take j new)))
                   (getAgentMemory s1 (role b)) = Inr (ps ! j)"
        by blast
      have "taskRole crewConfig (ts ! j) = Some (role b)" by (simp add: taskRole_def b)
      then have "Some (role b) \<in> set (map (taskRole crewConfig) ts)"
        using j by (metis length_map nth_map nth_mem)
      with d tr have "role b \<noteq> role agentCfg" by auto
      then have "getAgentMemory s1 (role b) = getAgentMemory s (role b)"
        using frame1 by (simp add: getAgentMemory_def)
      with b pb Suc show ?thesis by simp
    qed
  qed
  from 1 2 3 4 5 6 show ?case by blast
qed

lemma formatContext_plain:
  "plainRole r \<Longrightarrow> formatContextForAgent env ctx r = Inr contextNotAvailable"
  by (simp add: plainRole_def formatContextForAgent_def contextNotAvailable_def)

lemma createAgentPrompt_plain:
  "plainRole (role agentCfg) \<Longrightarrow>
   createAgentPrompt env agentCfg task userQuery ctx previousContext agentMem =
     Inr (promptHead agentCfg task contextNotAvailable
          @ (if previousContext = [] then firstAgentMarker else previousContext)
          @ promptTail agentCfg userQuery (memoryContextOf agentMem))"
  by (simp add: createAgentPrompt_def Let_def formatContext_plain)

lemma executeAgentTask_plain:
  assumes "plainRole (role agentCfg)"
  shows "\<exists>r s1. executeAgentTask env agentCfg task userQuery ctx previousResults s = (Inr r, s1)"
proof -
  let ?p = "promptHead agentCfg task contextNotAvailable
          @ (if join_str (lit ''\<newline>\<newline>'') (map response previousResults) = [] then firstAgentMarker
             else join_str (lit ''\<newline>\<newline>'') (map response previousResults))
          @ promptTail agentCfg userQuery (memoryContextOf (getAgentMemory s (role agentCfg)))"
  have p: "createAgentPrompt env agentCfg task userQuery ctx
             (join_str (lit ''\<newline>\<newline>'') (map response previousResults))
             (getAgentMemory s (role agentCfg)) = Inr ?p"
    using assms by (rule createAgentPrompt_plain)
  show ?thesis
  proof (cases "completion env (length (requests s)) ?p")
    case (Inl e)
    from executeAgentTask_failure [OF p Inl] show ?thesis by blast
  next
    case (Inr reply)
    from executeAgentTask_success [OF p Inr] show ?thesis by blast
  qed
qed

lemma runTasks_plain:
  "list_all (plainTask crewConfig) ts \<Longrightarrow>
   \<exists>rs s'. runTasks env crewConfig ts userQuery ctx acc s = (Inr rs, s')"
proof (induction ts arbitrary: acc s)
  case Nil
  then show ?case by simp
next
  case (Cons t ts)
  from Cons.prems obtain agentCfg where a: "agents crewConfig (Task.agent t) = Some agentCfg"
    and pl: "plainRole (role agentCfg)"
    by (auto simp: plainTask_def split: option.splits)
  from executeAgentTask_plain [OF pl] obtain r s1 where
    step: "executeAgentTask env agentCfg t userQuery ctx acc s = (Inr r, s1)" by blast
  from Cons.prems have "list_all (plainTask crewConfig) ts" by simp
  from Cons.IH [OF this] obtain rs s' where
    "runTasks env crewConfig ts userQuery ctx (acc @ [r]) s1 = (Inr rs, s')" by blast
  with a step show ?case by simp
qed

lemma crew_tasks_length: "length (tasks (crewConfigOf goalType)) = 3"
  by (cases goalType) (simp_all add: crewConfigOf_def getSleepTrackingCrew_def getStepsTrackingCrew_def)

lemma crew_plain: "list_all (plainTask (crewConfigOf goalType)) (tasks (crewConfigOf goalType))"
proof (cases goalType)
  case sleep_tracking
  have "list_all (plainTask (crewConfigOf sleep_tracking)) (tasks (crewConfigOf sleep_tracking))"
    by code_simp
  with sleep_tracking show ?thesis by simp
next
  case daily_steps
  have "list_all (plainTask (crewConfigOf daily_steps)) (tasks (crewConfigOf daily_steps))"
    by code_simp
  with daily_steps show ?thesis by simp
qed

lemma crew_distinct:
  "distinct (map (taskRole (crewConfigOf goalType)) (tasks (crewConfigOf goalType)))"
proof (cases goalType)
  case sleep_tracking
  have "distinct (map (taskRole (crewConfigOf sleep_tracking)) (tasks (crewConfigOf sleep_tracking)))"
    by code_simp
  with sleep_tracking show ?thesis by simp
next
  case daily_steps
  have "distinct (map (taskRole (crewConfigOf daily_steps)) (tasks (crewConfigOf daily_steps)))"
    by code_simp
  with daily_steps show ?thesis by simp
qed

lemma fallback_results_length:
  "length (getFallbackResponses env g userQuery ctx) = 2"
  by (simp add: getFallbackResponses_def)

lemma executeCrewConfig_Inl:
  assumes "runTasks env crewConfig (tasks crewConfig) userQuery ctx [] (crewStart goalType ctx s)
             = (Inl e, s2)"
  shows "executeCrewConfig env crewConfig goalType userQuery ctx s =
           (getFallbackCrewExecution env (goalTypeName goalType) userQuery ctx, s2)"
  using assms by (simp add: executeCrewConfig_def now_def crewStart_def Let_def)

lemma executeCrewConfig_Inr:
  assumes "runTasks env crewConfig (tasks crewConfig) userQuery ctx [] (crewStart goalType ctx s)
             = (Inr rs, s2)"
  shows "executeCrewConfig env crewConfig goalType userQuery ctx s =
           (\<lparr>results = rs,
             finalOutput =
               fst (coordinateAgentResponses env rs userQuery (goalTypeName goalType) s2),
             executionTime =
               clock env (clockReads
                 (snd (coordinateAgentResponses env rs userQuery (goalTypeName goalType) s2)))
               - clock env (clockReads s),
             success = True\<rparr>,
            snd (now env (snd (coordinateAgentResponses env rs userQuery (goalTypeName goalType) s2))))"
  using assms by (simp add: executeCrewConfig_def now_def crewStart_def Let_def case_prod_beta)

lemma coordinate_requests:
  "requests (snd (coordinateAgentResponses env rs userQuery g s)) =
     requests s @ [coordinationPrompt rs userQuery g]"
  "agentMemory (snd (coordinateAgentResponses env rs userQuery g s)) = agentMemory s"
  by (simp_all add: coordinateAgentResponses_def callOpenAI_def split: sum.splits)

lemma executeCrewConfig_plain:
  assumes "list_all (plainTask crewConfig) (tasks crewConfig)"
  shows "length (results (fst (executeCrewConfig env crewConfig goalType userQuery ctx s)))
           = length (tasks crewConfig)"
proof -
  from runTasks_plain [OF assms] obtain rs s' where
    run: "runTasks env crewConfig (tasks crewConfig) userQuery ctx [] (crewStart goalType ctx s)
            = (Inr rs, s')"
    by blast
  from runTasks_Inr [OF run] have "length rs = length (tasks crewConfig)" by auto
  then show ?thesis by (simp add: executeCrewConfig_Inr [OF run])
qed

lemma liveService_configured: "isConfigured liveService"
  by code_simp

lemma idleService_unconfigured: "\<not> isConfigured idleService"
  by code_simp

lemma sleep_analyst_plain: "plainRole (role sleep_analyst)"
  by code_simp

lemma crewStart_fields:
  "requests (crewStart goalType ctx s) = requests s"
  "getAgentMemory (crewStart goalType ctx s) r = getAgentMemory s r"
  "agentMemory (crewStart goalType ctx s) = agentMemory s"
  by (simp_all add: crewStart_def getAgentMemory_def)

lemma executeCrew_configured:
  assumes "isConfigured s"
  shows "\<exists>rs ps s2.
           runTasks env (crewConfigOf goalType) (tasks (crewConfigOf goalType)) userQuery ctx []
             (crewStart goalType ctx s) = (Inr rs, s2)
         \<and> results (fst (executeCrew env goalType userQuery ctx s)) = rs
         \<and> requests s2 = requests s @ ps
         \<and> length ps = length (tasks (crewConfigOf goalType))
         \<and> requests (snd (executeCrew env goalType userQuery ctx s))
             = requests s @ ps @ [coordinationPrompt rs userQuery (goalTypeName goalType)]"
proof -
  let ?cfg = "crewConfigOf goalType"
  from runTasks_plain [OF crew_plain] obtain rs s2 where
    run: "runTasks env ?cfg (tasks ?cfg) userQuery ctx [] (crewStart goalType ctx s) = (Inr rs, s2)"
    by blast
  from runTasks_Inr [OF run] obtain ps where
    req: "requests s2 = requests s @ ps" and lp: "length ps = length (tasks ?cfg)"
    by (auto simp: crewStart_fields)
  have ex: "executeCrew env goalType userQuery ctx s
              = executeCrewConfig env ?cfg goalType userQuery ctx s"
    using assms by (simp add: executeCrew_def)
  have "results (fst (executeCrew env goalType userQuery ctx s)) = rs"
    by (simp add: ex executeCrewConfig_Inr [OF run])
  moreover have "requests (snd (executeCrew env goalType userQuery ctx s))
             = requests s @ ps @ [coordinationPrompt rs userQuery (goalTypeName goalType)]"
    by (simp add: ex executeCrewConfig_Inr [OF run] now_def coordinate_requests req)
  ultimately show ?thesis using run req lp by blast
qed

lemma configured_prompt:
  assumes conf: "isConfigured s" and i: "i < length (tasks (crewConfigOf goalType))"
  shows "case agents (crewConfigOf goalType) (Task.agent (tasks (crewConfigOf goalType) ! i)) of
      None \<Rightarrow> False
    | Some agentCfg \<Rightarrow>
        (let earlier = join_str (lit ''\<newline>\<newline>'')
               (map response (take i (results (fst (executeCrew env goalType userQuery ctx s)))))
         in requests (snd (executeCrew env goalType userQuery ctx s)) ! (length (requests s) + i)
              = promptHead agentCfg (tasks (crewConfigOf goalType) ! i) contextNotAvailable
                @ (if earlier = [] then firstAgentMarker else earlier)
                @ promptTail agentCfg userQuery (memoryContextOf (getAgentMemory s (role agentCfg)))
            \<and> (i = 0 \<longrightarrow> earlier = []))"
proof -
  let ?cfg = "crewConfigOf goalType"
  let ?ts = "tasks ?cfg"
  note i' = i
  from executeCrew_configured [OF conf, of env goalType userQuery ctx] obtain rs ps s2 where
    run: "runTasks env ?cfg ?ts userQuery ctx [] (crewStart goalType ctx s) = (Inr rs, s2)"
    and res: "results (fst (executeCrew env goalType userQuery ctx s)) = rs"
    and lp: "length ps = length ?ts"
    and req2: "requests s2 = requests s @ ps"
    and req: "requests (snd (executeCrew env goalType userQuery ctx s))
             = requests s @ ps @ [coordinationPrompt rs userQuery (goalTypeName goalType)]"
    by blast
  from runTasks_Inr [OF run] crew_distinct [of goalType] i obtain new ps' agentCfg where
    rs: "rs = new" and ps': "requests s2 = requests (crewStart goalType ctx s) @ ps'"
    and a: "agents ?cfg (Task.agent (?ts ! i)) = Some agentCfg"
    and p: "createAgentPrompt env agentCfg (?ts ! i) userQuery ctx
              (join_str (lit ''\<newline>\<newline>'') (map response ([] @ take i new)))
              (getAgentMemory (crewStart goalType ctx s) (role agentCfg)) = Inr (ps' ! i)"
    by (smt (verit) append_Nil)
  from ps' req2 have same: "ps' = ps" by (simp add: crewStart_fields)
  from crew_plain [of goalType] i have "plainTask ?cfg (?ts ! i)"
    by (simp add: list_all_length)
  with a have pl: "plainRole (role agentCfg)" by (simp add: plainTask_def)
  let ?earlier = "join_str (lit ''\<newline>\<newline>'') (map response (take i rs))"
  from p have B: "createAgentPrompt env agentCfg (?ts ! i) userQuery ctx ?earlier
              (getAgentMemory s (role agentCfg)) = Inr (ps ! i)"
    by (simp add: crewStart_fields rs same)
  note A = createAgentPrompt_plain [OF pl, of env "?ts ! i" userQuery ctx ?earlier
              "getAgentMemory s (role agentCfg)"]
  from trans [OF B [symmetric] A]
  have "ps ! i = promptHead agentCfg (?ts ! i) contextNotAvailable
                @ (if ?earlier = [] then firstAgentMarker else ?earlier)
                @ promptTail agentCfg userQuery (memoryContextOf (getAgentMemory s (role agentCfg)))"
    by (rule Inr_inject)
  moreover have "requests (snd (executeCrew env goalType userQuery ctx s)) ! (length (requests s) + i)
                  = ps ! i"
    using i lp by (simp add: req nth_append)
  ultimately show ?thesis
    by (simp add: a res Let_def)
qed

lemma answering_step:
  assumes "plainRole (role agentCfg)"
  shows "executeAgentTask answeringEnv agentCfg task userQuery ctx previousResults s =
           (Inr (parseAgentResponse (lit ''Answer '' @ decimal (length (requests s))) (role agentCfg)),
            s\<lparr>requests := requests s @
                 [promptHead agentCfg task contextNotAvailable
                  @ (if join_str (lit ''\<newline>\<newline>'') (map response previousResults) = []
                     then firstAgentMarker
                     else join_str (lit ''\<newline>\<newline>'') (map response previousResults))
                  @ promptTail agentCfg userQuery (memoryContextOf (getAgentMemory s (role agentCfg)))],
              clockReads := Suc (clockReads s),
              agentMemory := (agentMemory s)(role agentCfg \<mapsto>
                 pushMemory (getAgentMemory s (role agentCfg))
                   \<lparr>query = userQuery,
                    MemoryEntry.response = lit ''Answer '' @ decimal (length (requests s)),
                    timestamp = clock answeringEnv (clockReads s), context' = ctx\<rparr>)\<rparr>)"
proof -
  have c: "completion answeringEnv n p = Inr (lit ''Answer '' @ decimal n)" for n p
    by (simp add: answeringEnv_def)
  show ?thesis
    by (rule executeAgentTask_success [OF createAgentPrompt_plain [OF assms] c])
qed

lemma sleep_crew_agents:
  "agents getSleepTrackingCrew (Task.agent sleep_analyst_task) = Some sleep_analyst"
  "agents getSleepTrackingCrew (Task.agent sleep_coach_task) = Some sleep_coach"
  "agents getSleepTrackingCrew (Task.agent circadian_specialist_task) = Some circadian_specialist"
  by (simp_all add: getSleepTrackingCrew_def sleep_analyst_task_def sleep_coach_task_def
        circadian_specialist_task_def lit_def)

lemma sleep_crew_tasks:
  "tasks (crewConfigOf sleep_tracking) = [sleep_analyst_task, sleep_coach_task, circadian_specialist_task]"
  "agents (crewConfigOf sleep_tracking) = agents getSleepTrackingCrew"
  by (simp_all add: crewConfigOf_def getSleepTrackingCrew_def)

lemma sleep_crew_plain:
  "plainRole (role sleep_analyst)" "plainRole (role sleep_coach)" "plainRole (role circadian_specialist)"
  by code_simp+

lemma liveService_fields:
  "requests liveService = []" "agentMemory liveService = Map.empty" "clockReads liveService = 0"
  by (simp_all add: liveService_def newCrewAIService_def)

lemma decimal_digits:
  "decimal 0 = lit ''0''" "decimal (Suc 0) = lit ''1''" "decimal (Suc (Suc 0)) = lit ''2''"
  by (simp_all add: decimal.simps lit_def)

lemma answering_results:
  "results (fst (executeCrew answeringEnv sleep_tracking sampleQuery sevenHours liveService))
     = [parseAgentResponse (lit ''Answer 0'') (role sleep_analyst),
        parseAgentResponse (lit ''Answer 1'') (role sleep_coach),
        parseAgentResponse (lit ''Answer 2'') (role circadian_specialist)]"
proof -
  let ?run = "runTasks answeringEnv (crewConfigOf sleep_tracking) (tasks (crewConfigOf sleep_tracking))
                sampleQuery sevenHours [] (crewStart sleep_tracking sevenHours liveService)"
  have f: "fst ?run = Inr [parseAgentResponse (lit ''Answer 0'') (role sleep_analyst),
        parseAgentResponse (lit ''Answer 1'') (role sleep_coach),
        parseAgentResponse (lit ''Answer 2'') (role circadian_specialist)]"
    by (simp add: sleep_crew_tasks sleep_crew_agents answering_step sleep_crew_plain
          crewStart_fields liveService_fields decimal_digits lit_def)
  have run: "?run = (Inr [parseAgentResponse (lit ''Answer 0'') (role sleep_analyst),
        parseAgentResponse (lit ''Answer 1'') (role sleep_coach),
        parseAgentResponse (lit ''Answer 2'') (role circadian_specialist)], snd ?run)"
    using f by (metis prod.collapse)
  show ?thesis
    by (simp add: executeCrew_def liveService_configured executeCrewConfig_Inr [OF run])
qed

lemma pushMemory_drop:
  "pushMemory m e = drop (length (m @ [e]) - 10) (m @ [e])"
  by (simp add: pushMemory_def Let_def)

lemma lastTen_append:
  "drop (length (drop (length xs - 10) xs @ ys) - 10) (drop (length xs - 10) xs @ ys)
     = drop (length (xs @ ys) - 10) (xs @ ys)"
  by (cases "length xs \<le> 10") (simp_all add: add.commute)

lemma foldl_pushMemory:
  "foldl pushMemory (drop (length m - 10) m) es = drop (length (m @ es) - 10) (m @ es)"
proof (induction es arbitrary: m)
  case Nil
  then show ?case by simp
next
  case (Cons e es)
  have "pushMemory (drop (length m - 10) m) e = drop (length (m @ [e]) - 10) (m @ [e])"
    unfolding pushMemory_drop using lastTen_append [of m "[e]"] by simp
  then show ?case using Cons.IH [of "m @ [e]"] by simp
qed

lemma executeAgentTask_memory:
  "getAgentMemory (snd (executeAgentTask env agentCfg task userQuery ctx previousResults s)) r =
     (case insertedEntry env (agentCfg, task, userQuery, ctx, previousResults) s of
        None \<Rightarrow> getAgentMemory s r
      | Some entry \<Rightarrow>
          if role agentCfg = r then pushMemory (getAgentMemory s r) entry else getAgentMemory s r)"
proof (cases "createAgentPrompt env agentCfg task userQuery ctx
             (join_str (lit ''\<newline>\<newline>'') (map response previousResults))
             (getAgentMemory s (role agentCfg))")
  case (Inl e)
  from executeAgentTask_promptError [OF Inl] Inl show ?thesis
    by (simp add: insertedEntry_def)
next
  case (Inr prompt)
  show ?thesis
  proof (cases "completion env (length (requests s)) prompt")
    case (Inl e)
    from executeAgentTask_failure [OF Inr Inl] Inr Inl show ?thesis
      by (simp add: insertedEntry_def getAgentMemory_def)
  next
    case r: (Inr reply)
    from executeAgentTask_success [OF Inr r] Inr r show ?thesis
      by (simp add: insertedEntry_def getAgentMemory_def)
  qed
qed

lemma runJobs_memory:
  "getAgentMemory (runJobs env jobs s) r =
     foldl pushMemory (getAgentMemory s r) (insertedEntries env jobs s r)"
proof (induction jobs arbitrary: s)
  case Nil
  then show ?case by simp
next
  case (Cons job jobs)
  obtain agentCfg task userQuery ctx previousResults where
    job: "job = (agentCfg, task, userQuery, ctx, previousResults)"
    by (cases job) auto
  show ?case
    unfolding job
    by (simp add: Cons.IH executeAgentTask_memory split: option.splits)
qed

lemma answering_entry:
  assumes "plainRole (role agentCfg)"
  shows "insertedEntry answeringEnv (agentCfg, task, userQuery, ctx, previousResults) s =
           Some \<lparr>query = userQuery,
                 MemoryEntry.response = lit ''Answer '' @ decimal (length (requests s)),
                 timestamp = clock answeringEnv (clockReads s), context' = ctx\<rparr>"
  by (simp add: insertedEntry_def createAgentPrompt_plain [OF assms] answeringEnv_def)

lemma twelve_inserted:
  "map query (insertedEntries answeringEnv twelveJobs liveService (role sleep_analyst))
     = map (\<lambda>n. lit ''Question '' @ decimal n) [1, 2, 3, 4, 5, 6, 7, 8, 9, 10, 11, 12]"
  by (simp add: twelveJobs_def answering_entry answering_step sleep_crew_plain
        getAgentMemory_def pushMemory_def liveService_fields Let_def)

lemma startsWith_append: "startsWith (p @ rest) p"
  by (simp add: startsWith_def)

lemma startsWith_includes: "startsWith s p \<Longrightarrow> includes_str s p"
  by (cases s) (simp_all add: startsWith_def)

lemma includes_str_append: "includes_str (pre @ p @ rest) p"
proof (induction pre)
  case Nil
  show ?case using startsWith_includes [OF startsWith_append] by simp
next
  case (Cons c pre)
  then show ?case by simp
qed

lemma fallbackHeader_eq:
  "goalEmojiOf (goalTypeName goalType) @ lit '' **''
     @ (toUpperCase (charAt (goalNameOf (goalTypeName goalType)) 0)
        @ slice_from (goalNameOf (goalTypeName goalType)) 1)
     @ lit '' Plan**\<newline>''
   = fallbackHeader goalType @ lit ''\<newline>''"
proof (cases goalType)
  case sleep_tracking
  have "goalEmojiOf (goalTypeName sleep_tracking) @ lit '' **''
     @ (toUpperCase (charAt (goalNameOf (goalTypeName sleep_tracking)) 0)
        @ slice_from (goalNameOf (goalTypeName sleep_tracking)) 1)
     @ lit '' Plan**\<newline>''
   = fallbackHeader sleep_tracking @ lit ''\<newline>''"
    by code_simp
  with sleep_tracking show ?thesis by simp
next
  case daily_steps
  have "goalEmojiOf (goalTypeName daily_steps) @ lit '' **''
     @ (toUpperCase (charAt (goalNameOf (goalTypeName daily_steps)) 0)
        @ slice_from (goalNameOf (goalTypeName daily_steps)) 1)
     @ lit '' Plan**\<newline>''
   = fallbackHeader daily_steps @ lit ''\<newline>''"
    by code_simp
  with daily_steps show ?thesis by simp
qed

lemma generateFallbackFinalOutput_eq:
  "generateFallbackFinalOutput agentResults (goalTypeName goalType) userQuery =
     fallbackHeader goalType
     @ lit ''\<newline>''
     @ lit ''\<newline>''
     @ lit ''Based on expert analysis, here's your personalized strategy:\<newline>''
     @ lit ''\<newline>''
     @ lit ''**Priority Actions:**\<newline>''
     @ recommendationsBlock agentResults
     @ lit ''\<newline>''
     @ lit ''\<newline>''
     @ lit ''**Key Insights:**\<newline>''
     @ bulletBlock (concat (map insights agentResults))
     @ lit ''\<newline>''
     @ lit ''\<newline>''
     @ lit ''**Next Steps:**\<newline>''
     @ lit ''Start with action #1 today and gradually build these habits into your ''
     @ lit ''routine. Consistency is more important than perfection!\<newline>''
     @ lit ''\<newline>''
     @ lit ''What would you like to focus on first?''"
  using fallbackHeader_eq [of goalType]
  by (simp add: generateFallbackFinalOutput_def Let_def recommendationsBlock_def bulletBlock_def
        slice_0_5 del: append_assoc fallbackHeader.simps goalTypeName.simps)

lemma fallback_first_response:
  "response (getFallbackResponses env (lit ''sleep_tracking'') userQuery ctx ! 0) =
     lit ''Based on your sleep data, I can see you're ''
     @ (lit ''targeting '' @ orElse (ctx (lit ''targetSleepHours'')) (lit ''8'') @ lit '' hours of sleep'')
     @ lit ''. Your current patterns show room for optimization in sleep consistency and quality.''"
  by (simp add: getFallbackResponses_def lit_def)

lemma numbered_nth:
  "i < length xs \<Longrightarrow> numbered xs ! i = decimal (i + 1) @ lit ''. '' @ xs ! i"
  by (simp add: numbered_def nth_enumerate_eq)

lemma combineManually_eq:
  "combineManually agentResults =
     lit ''Based on expert analysis, here are your personalized recommendations:\<newline>''
     @ lit ''\<newline>''
     @ recommendationsBlock agentResults
     @ lit ''\<newline>''
     @ lit ''\<newline>''
     @ lit ''Key insights:\<newline>''
     @ bulletBlock (take 3 (concat (map insights agentResults)))
     @ lit ''\<newline>''
     @ lit ''\<newline>''
     @ lit ''Let me know if you'd like me to elaborate on any of these recommendations!''"
  by (simp add: combineManually_def Let_def recommendationsBlock_def bulletBlock_def
        slice_0_5 slice_0_3)

lemma silent_step:
  assumes "plainRole (role agentCfg)"
  shows "executeAgentTask silentEnv agentCfg task userQuery ctx previousResults s =
           (Inr (parseAgentResponse [] (role agentCfg)),
            s\<lparr>requests := requests s @
                 [promptHead agentCfg task contextNotAvailable
                  @ (if join_str (lit ''\<newline>\<newline>'') (map response previousResults) = []
                     then firstAgentMarker
                     else join_str (lit ''\<newline>\<newline>'') (map response previousResults))
                  @ promptTail agentCfg userQuery (memoryContextOf (getAgentMemory s (role agentCfg)))],
              clockReads := Suc (clockReads s),
              agentMemory := (agentMemory s)(role agentCfg \<mapsto>
                 pushMemory (getAgentMemory s (role agentCfg))
                   \<lparr>query = userQuery,
                    MemoryEntry.response = [],
                    timestamp = clock silentEnv (clockReads s), context' = ctx\<rparr>)\<rparr>)"
proof -
  have c: "completion silentEnv n p = Inr []" for n p
    by (simp add: silentEnv_def)
  show ?thesis
    by (rule executeAgentTask_success [OF createAgentPrompt_plain [OF assms] c])
qed

lemma silent_results:
  "results (fst (executeCrew silentEnv sleep_tracking sampleQuery sevenHours liveService))
     = [parseAgentResponse [] (role sleep_analyst),
        parseAgentResponse [] (role sleep_coach),
        parseAgentResponse [] (role circadian_specialist)]"
proof -
  let ?run = "runTasks silentEnv (crewConfigOf sleep_tracking) (tasks (crewConfigOf sleep_tracking))
                sampleQuery sevenHours [] (crewStart sleep_tracking sevenHours liveService)"
  have f: "fst ?run = Inr [parseAgentResponse [] (role sleep_analyst),
        parseAgentResponse [] (role sleep_coach),
        parseAgentResponse [] (role circadian_specialist)]"
    by (simp add: sleep_crew_tasks sleep_crew_agents silent_step sleep_crew_plain)
  have run: "?run = (Inr [parseAgentResponse [] (role sleep_analyst),
        parseAgentResponse [] (role sleep_coach),
        parseAgentResponse [] (role circadian_specialist)], snd ?run)"
    using f by (metis prod.collapse)
  show ?thesis
    by (simp add: executeCrew_def liveService_configured executeCrewConfig_Inr [OF run])
qed

section \<open>The crew\<close>

text \<open>
  Claim C1. For both goals, every query, every context and every service, configured or
  not, and whatever the completion calls answer, \<open>executeCrew\<close> returns an execution whose
  success flag is true. The same holds for the body of \<open>executeCrew\<close> on any crew
  configuration, also one whose loop throws.
\<close>

theorem executeCrew_success:
  "success (fst (executeCrew env goalType userQuery ctx s))
   \<and> success (fst (executeCrewConfig env crewConfig goalType userQuery ctx s))"
proof -
  have a: "success (getFallbackCrewExecution env g userQuery ctx)" for g
    by (simp add: getFallbackCrewExecution_def Let_def)
  have b: "success (fst (executeCrewConfig env cfg goalType userQuery ctx s))" for cfg
    by (simp add: executeCrewConfig_def Let_def a split: prod.splits sum.splits)
  show ?thesis by (simp add: executeCrew_def a b)
qed

text \<open>
  Claim C2. When the service is configured, the results of \<open>executeCrew\<close> are as many as
  the tasks of the crew of the goal, which are three; when it is not configured, they are
  the two responses of the fallback; the whole-crew fallback always returns two responses.
\<close>

theorem executeCrew_results_length:
  "(isConfigured s \<longrightarrow>
      length (results (fst (executeCrew env goalType userQuery ctx s)))
        = length (tasks (crewConfigOf goalType))
      \<and> length (tasks (crewConfigOf goalType)) = 3)
   \<and> (\<not> isConfigured s \<longrightarrow>
      length (results (fst (executeCrew env goalType userQuery ctx s))) = 2)
   \<and> length (results (getFallbackCrewExecution env (goalTypeName goalType) userQuery ctx)) = 2"
  by (simp add: executeCrew_def executeCrewConfig_plain [OF crew_plain] crew_tasks_length
        getFallbackCrewExecution_def Let_def fallback_results_length)

text \<open>The theorem at a configured service and at one without a key.\<close>

theorem executeCrew_results_length_witness:
  "isConfigured liveService
   \<and> length (results (fst (executeCrew answeringEnv sleep_tracking sampleQuery sevenHours liveService))) = 3
   \<and> \<not> isConfigured idleService
   \<and> length (results (fst (executeCrew answeringEnv daily_steps sampleQuery noContext idleService))) = 2"
  using executeCrew_results_length [of liveService answeringEnv sleep_tracking sampleQuery sevenHours]
    executeCrew_results_length [of idleService answeringEnv daily_steps sampleQuery noContext]
    liveService_configured idleService_unconfigured
  by simp

text \<open>
  Claim C10. When the prompt of a task is built and the completion call on it fails,
  \<open>executeAgentTask\<close> returns the fallback response of the role, whose confidence is 0.6,
  and the memory of every role is what it was before the call.
\<close>

theorem failed_completion_keeps_memory:
  "createAgentPrompt env agentCfg task userQuery ctx
       (join_str (lit ''\<newline>\<newline>'') (map response previousResults))
       (getAgentMemory s (role agentCfg)) = Inr prompt
   \<and> completion env (length (requests s)) prompt = Inl e
   \<longrightarrow> fst (executeAgentTask env agentCfg task userQuery ctx previousResults s)
         = Inr (getFallbackAgentResponse (role agentCfg) userQuery ctx)
       \<and> confidence (getFallbackAgentResponse (role agentCfg) userQuery ctx) = 0.6
       \<and> agentMemory (snd (executeAgentTask env agentCfg task userQuery ctx previousResults s))
           = agentMemory s
       \<and> requests (snd (executeAgentTask env agentCfg task userQuery ctx previousResults s))
           = requests s @ [prompt]"
proof (intro impI, elim conjE)
  assume p: "createAgentPrompt env agentCfg task userQuery ctx
       (join_str (lit ''\<newline>\<newline>'') (map response previousResults))
       (getAgentMemory s (role agentCfg)) = Inr prompt"
    and c: "completion env (length (requests s)) prompt = Inl e"
  have conf: "confidence (getFallbackAgentResponse (role agentCfg) userQuery ctx) = 0.6"
    by (simp add: getFallbackAgentResponse_def)
  from executeAgentTask_failure [OF p c] conf
  show "fst (executeAgentTask env agentCfg task userQuery ctx previousResults s)
         = Inr (getFallbackAgentResponse (role agentCfg) userQuery ctx)
       \<and> confidence (getFallbackAgentResponse (role agentCfg) userQuery ctx) = 0.6
       \<and> agentMemory (snd (executeAgentTask env agentCfg task userQuery ctx previousResults s))
           = agentMemory s
       \<and> requests (snd (executeAgentTask env agentCfg task userQuery ctx previousResults s))
           = requests s @ [prompt]"
    by simp
qed

text \<open>The theorem at the first task of the sleep crew, with a completion that fails.\<close>

theorem failed_completion_keeps_memory_witness:
  "createAgentPrompt failingEnv sleep_analyst sleep_analyst_task sampleQuery sevenHours
       (join_str (lit ''\<newline>\<newline>'') (map response []))
       (getAgentMemory liveService (role sleep_analyst))
     = Inr (promptHead sleep_analyst sleep_analyst_task contextNotAvailable
            @ firstAgentMarker
            @ promptTail sleep_analyst sampleQuery (memoryContextOf []))
   \<and> completion failingEnv (length (requests liveService))
        (promptHead sleep_analyst sleep_analyst_task contextNotAvailable
            @ firstAgentMarker
            @ promptTail sleep_analyst sampleQuery (memoryContextOf []))
     = Inl (Error (lit ''OpenAI API error: 503 - ''))
   \<and> fst (executeAgentTask failingEnv sleep_analyst sleep_analyst_task sampleQuery sevenHours [] liveService)
     = Inr (getFallbackAgentResponse (role sleep_analyst) sampleQuery sevenHours)
   \<and> confidence (getFallbackAgentResponse (role sleep_analyst) sampleQuery sevenHours) = 0.6
   \<and> agentMemory (snd (executeAgentTask failingEnv sleep_analyst sleep_analyst_task sampleQuery
        sevenHours [] liveService))
     = agentMemory liveService"
proof -
  let ?p = "promptHead sleep_analyst sleep_analyst_task contextNotAvailable
            @ firstAgentMarker
            @ promptTail sleep_analyst sampleQuery (memoryContextOf [])"
  have m: "getAgentMemory liveService (role sleep_analyst) = []"
    by (simp add: getAgentMemory_def liveService_def newCrewAIService_def)
  have 1: "createAgentPrompt failingEnv sleep_analyst sleep_analyst_task sampleQuery sevenHours
       (join_str (lit ''\<newline>\<newline>'') (map response []))
       (getAgentMemory liveService (role sleep_analyst)) = Inr ?p"
    by (simp add: createAgentPrompt_plain [OF sleep_analyst_plain] m)
  have 2: "completion failingEnv (length (requests liveService)) ?p
             = Inl (Error (lit ''OpenAI API error: 503 - ''))"
    by (simp add: failingEnv_def)
  note T = failed_completion_keeps_memory
         [of failingEnv sleep_analyst sleep_analyst_task sampleQuery sevenHours "[]" liveService ?p
             "Error (lit ''OpenAI API error: 503 - '')"]
  from 1 2 have h: "createAgentPrompt failingEnv sleep_analyst sleep_analyst_task sampleQuery sevenHours
       (join_str (lit ''\<newline>\<newline>'') (map response []))
       (getAgentMemory liveService (role sleep_analyst)) = Inr ?p
     \<and> completion failingEnv (length (requests liveService)) ?p
             = Inl (Error (lit ''OpenAI API error: 503 - ''))"
    by (rule conjI)
  note r = T [THEN mp, OF h]
  note c = r [THEN conjunct1] r [THEN conjunct2, THEN conjunct1]
    r [THEN conjunct2, THEN conjunct2, THEN conjunct1]
  show ?thesis by (intro conjI) (rule 1 2 c)+
qed

text \<open>
  Claim C3 as stated fails. A completion that succeeds with the empty text is a response
  like any other, with confidence 0.85. When they all do, the text of the earlier
  responses is empty for the second task too, and the prompt of the second agent carries
  the marker that the claim keeps for the first one.
\<close>

theorem empty_answer_counterexample:
  "isConfigured liveService
   \<and> map response
        (results (fst (executeCrew silentEnv sleep_tracking sampleQuery sevenHours liveService)))
       = [[], [], []]
   \<and> map confidence
        (results (fst (executeCrew silentEnv sleep_tracking sampleQuery sevenHours liveService)))
       = [0.85, 0.85, 0.85]
   \<and> requests (snd (executeCrew silentEnv sleep_tracking sampleQuery sevenHours liveService)) ! 1
       = promptHead sleep_coach sleep_coach_task contextNotAvailable
         @ firstAgentMarker
         @ promptTail sleep_coach sampleQuery []
   \<and> firstAgentMarker = lit ''None - you are the first agent in this crew.''"
proof -
  note P = configured_prompt [OF liveService_configured,
             of 1 sleep_tracking silentEnv sampleQuery sevenHours]
  have i: "1 < length (tasks (crewConfigOf sleep_tracking))" by (simp add: crew_tasks_length)
  have idx: "length (requests liveService) + 1 = 1" by (simp add: liveService_fields)
  have m: "memoryContextOf (getAgentMemory liveService (role sleep_coach)) = []"
    by (simp add: memoryContextOf_def getAgentMemory_def liveService_fields)
  have e: "join_str (lit ''\<newline>\<newline>'')
             (map response (take (Suc 0) (results (fst (executeCrew silentEnv sleep_tracking
                sampleQuery sevenHours liveService))))) = []"
    by (simp add: silent_results parse_fields)
  from P [OF i]
  have "requests (snd (executeCrew silentEnv sleep_tracking sampleQuery sevenHours liveService)) ! 1
       = promptHead sleep_coach sleep_coach_task contextNotAvailable
         @ firstAgentMarker
         @ promptTail sleep_coach sampleQuery []"
    unfolding idx by (simp add: sleep_crew_tasks sleep_crew_agents m e Let_def)
  then show ?thesis
    by (simp add: liveService_configured silent_results parse_fields firstAgentMarker_def)
qed

text \<open>
  Claim C3, amended. In a configured run, the prompt sent for the task at position \<open>i\<close>
  (counted from 0) is the head of the template for that agent and task, then the response
  texts of the results returned for the tasks before it, in order and joined by blank
  lines, then the tail of the template for the agent, the query and the memory that the
  role held when the run started. Neither the head nor the tail depends on a response of
  this run. When the joined text is empty, which it always is for the first task and
  which it is for the second task when the first response is the empty text, the marker
  that the agent is the first one stands in its place.
\<close>

theorem prompt_embeds_earlier_responses:
  "isConfigured s \<and> i < length (tasks (crewConfigOf goalType)) \<longrightarrow>
   (case agents (crewConfigOf goalType) (Task.agent (tasks (crewConfigOf goalType) ! i)) of
      None \<Rightarrow> False
    | Some agentCfg \<Rightarrow>
        (let earlier = join_str (lit ''\<newline>\<newline>'')
               (map response (take i (results (fst (executeCrew env goalType userQuery ctx s)))))
         in requests (snd (executeCrew env goalType userQuery ctx s)) ! (length (requests s) + i)
              = promptHead agentCfg (tasks (crewConfigOf goalType) ! i) contextNotAvailable
                @ (if earlier = [] then firstAgentMarker else earlier)
                @ promptTail agentCfg userQuery (memoryContextOf (getAgentMemory s (role agentCfg)))
            \<and> (i = 0 \<longrightarrow> earlier = [])))"
  by (intro impI, elim conjE) (rule configured_prompt)

text \<open>
  The theorem at the third task of the sleep crew, with a completion that answers the
  request number \<open>n\<close> by \<open>Answer n\<close>.
\<close>

theorem prompt_embeds_earlier_responses_witness:
  "isConfigured liveService
   \<and> 2 < length (tasks (crewConfigOf sleep_tracking))
   \<and> requests (snd (executeCrew answeringEnv sleep_tracking sampleQuery sevenHours liveService)) ! 2
       = promptHead circadian_specialist circadian_specialist_task contextNotAvailable
         @ lit ''Answer 0\<newline>\<newline>Answer 1''
         @ promptTail circadian_specialist sampleQuery []"
proof -
  note T = prompt_embeds_earlier_responses
             [of liveService 2 sleep_tracking answeringEnv sampleQuery sevenHours]
  have h: "isConfigured liveService \<and> 2 < length (tasks (crewConfigOf sleep_tracking))"
    by (simp add: liveService_configured crew_tasks_length)
  have m: "memoryContextOf (getAgentMemory liveService (role circadian_specialist)) = []"
    by (simp add: memoryContextOf_def getAgentMemory_def liveService_fields)
  have e: "join_str (lit ''\<newline>\<newline>'')
             (map response (take 2 (results (fst (executeCrew answeringEnv sleep_tracking
                sampleQuery sevenHours liveService)))))
           = lit ''Answer 0\<newline>\<newline>Answer 1''"
    by (simp add: answering_results parse_fields lit_def)
  have ne: "lit ''Answer 0\<newline>\<newline>Answer 1'' \<noteq> []" by (simp add: lit_def)
  have idx: "length (requests liveService) + 2 = 2" by (simp add: liveService_fields)
  from T [THEN mp, OF h]
  have "requests (snd (executeCrew answeringEnv sleep_tracking sampleQuery sevenHours liveService)) ! 2
       = promptHead circadian_specialist circadian_specialist_task contextNotAvailable
         @ lit ''Answer 0\<newline>\<newline>Answer 1''
         @ promptTail circadian_specialist sampleQuery []"
    unfolding idx by (simp add: sleep_crew_tasks sleep_crew_agents m e ne Let_def)
  with h show ?thesis by blast
qed

text \<open>
  Claim C4. From a service in which the role \<open>r\<close> holds at most ten entries, after any
  sequence of task executions the memory of \<open>r\<close> is the last ten of the entries it held
  followed by the entries inserted for it, in the order of insertion, and so never holds
  more than ten entries.
\<close>

theorem memory_keeps_last_ten:
  "length (getAgentMemory s r) \<le> 10 \<longrightarrow>
     getAgentMemory (runJobs env jobs s) r =
       (let inserted = getAgentMemory s r @ insertedEntries env jobs s r
        in drop (length inserted - 10) inserted)
     \<and> length (getAgentMemory (runJobs env jobs s) r) \<le> 10"
proof
  assume "length (getAgentMemory s r) \<le> 10"
  then have m: "drop (length (getAgentMemory s r) - 10) (getAgentMemory s r) = getAgentMemory s r"
    by simp
  have "getAgentMemory (runJobs env jobs s) r =
          drop (length (getAgentMemory s r @ insertedEntries env jobs s r) - 10)
            (getAgentMemory s r @ insertedEntries env jobs s r)"
    using foldl_pushMemory [of "getAgentMemory s r" "insertedEntries env jobs s r"]
    unfolding m runJobs_memory .
  then show "getAgentMemory (runJobs env jobs s) r =
       (let inserted = getAgentMemory s r @ insertedEntries env jobs s r
        in drop (length inserted - 10) inserted)
     \<and> length (getAgentMemory (runJobs env jobs s) r) \<le> 10"
    by (simp add: Let_def)
qed

text \<open>
  The theorem at twelve successful executions for one role, from an empty memory: the
  entries of the first two queries are the ones dropped.
\<close>

theorem memory_keeps_last_ten_witness:
  "length (getAgentMemory liveService (role sleep_analyst)) \<le> 10
   \<and> map query (getAgentMemory (runJobs answeringEnv twelveJobs liveService) (role sleep_analyst))
       = map (\<lambda>n. lit ''Question '' @ decimal n) [3, 4, 5, 6, 7, 8, 9, 10, 11, 12]"
proof -
  have h: "length (getAgentMemory liveService (role sleep_analyst)) \<le> 10"
    by (simp add: getAgentMemory_def liveService_fields)
  have e: "getAgentMemory liveService (role sleep_analyst) = []"
    by (simp add: getAgentMemory_def liveService_fields)
  have l: "length (insertedEntries answeringEnv twelveJobs liveService (role sleep_analyst)) = 12"
  proof -
    have "length (map query (insertedEntries answeringEnv twelveJobs liveService (role sleep_analyst))) = 12"
      unfolding twelve_inserted by simp
    then show ?thesis by simp
  qed
  from memory_keeps_last_ten [of liveService "role sleep_analyst" answeringEnv twelveJobs, THEN mp, OF h]
  have "getAgentMemory (runJobs answeringEnv twelveJobs liveService) (role sleep_analyst)
          = drop 2 (insertedEntries answeringEnv twelveJobs liveService (role sleep_analyst))"
    by (simp add: e l Let_def)
  then have "map query (getAgentMemory (runJobs answeringEnv twelveJobs liveService) (role sleep_analyst))
          = drop 2 (map query (insertedEntries answeringEnv twelveJobs liveService (role sleep_analyst)))"
    by (simp add: drop_map)
  with h show ?thesis unfolding twelve_inserted by simp
qed

text \<open>
  Claim C8 as stated fails. With a target of 0 hours in the context, the unconfigured
  service answers a sleep query with texts none of which holds the digit 0: \<open>0 || 8\<close> is 8,
  and the fallback speaks of 8 hours.
\<close>

theorem zero_target_counterexample:
  "\<not> isConfigured idleService
   \<and> zeroHours (lit ''targetSleepHours'') = JNum numberZero
   \<and> \<not> truthy (JNum numberZero)
   \<and> toStr (JNum numberZero) = lit ''0''
   \<and> list_all (\<lambda>t. \<not> includes_str t (lit ''0''))
        (executionTexts (fst (executeCrew answeringEnv sleep_tracking sampleQuery zeroHours idleService)))
   \<and> includes_str
        (response (results (fst (executeCrew answeringEnv sleep_tracking sampleQuery zeroHours idleService)) ! 0))
        (lit ''targeting 8 hours of sleep'')"
  by code_simp

text \<open>
  Claim C8, amended. The service is unconfigured exactly when its key is empty, is the
  placeholder or has at most 20 code units. Then \<open>executeCrew\<close> leaves the service as it
  is, so that no completion request is sent; it reports 500 milliseconds; and its final
  output begins with the title line of the goal. For the sleep goal the first response
  names the target sleep hours of the context, as \<open>ToString\<close> prints that value, when the
  value is truthy, which a number is when it is neither 0 nor \<open>NaN\<close>; it names 8 otherwise.
\<close>

theorem unconfigured_fallback:
  "(\<not> isConfigured s \<longrightarrow>
      snd (executeCrew env goalType userQuery ctx s) = s
      \<and> requests (snd (executeCrew env goalType userQuery ctx s)) = requests s
      \<and> executionTime (fst (executeCrew env goalType userQuery ctx s)) = 500
      \<and> startsWith (finalOutput (fst (executeCrew env goalType userQuery ctx s)))
           (fallbackHeader goalType)
      \<and> (goalType = sleep_tracking \<longrightarrow>
           includes_str (response (results (fst (executeCrew env goalType userQuery ctx s)) ! 0))
             (lit ''targeting '' @ orElse (ctx (lit ''targetSleepHours'')) (lit ''8'')
              @ lit '' hours of sleep'')))
   \<and> isConfigured s =
       (\<not> (apiKey s = [] \<or> apiKey s = lit ''your_openai_api_key_here'' \<or> length (apiKey s) \<le> 20))
   \<and> orElse v (lit ''8'') = (if truthy v then toStr v else lit ''8'')
   \<and> truthy (JNum n) = (\<not> isZeroOrNaN n)
   \<and> toStr (JNum n) = numberToString n"
proof (intro conjI impI)
  assume u: "\<not> isConfigured s"
  then have ex: "executeCrew env goalType userQuery ctx s =
      (getFallbackCrewExecution env (goalTypeName goalType) userQuery ctx, s)"
    by (simp add: executeCrew_def)
  show "snd (executeCrew env goalType userQuery ctx s) = s" by (simp add: ex)
  show "requests (snd (executeCrew env goalType userQuery ctx s)) = requests s" by (simp add: ex)
  show "executionTime (fst (executeCrew env goalType userQuery ctx s)) = 500"
    by (simp add: ex getFallbackCrewExecution_def Let_def)
  show "startsWith (finalOutput (fst (executeCrew env goalType userQuery ctx s)))
           (fallbackHeader goalType)"
    unfolding ex by (simp add: getFallbackCrewExecution_def Let_def generateFallbackFinalOutput_eq
      startsWith_append del: fallbackHeader.simps goalTypeName.simps)
  assume g: "goalType = sleep_tracking"
  show "includes_str (response (results (fst (executeCrew env goalType userQuery ctx s)) ! 0))
             (lit ''targeting '' @ orElse (ctx (lit ''targetSleepHours'')) (lit ''8'')
              @ lit '' hours of sleep'')"
  proof -
    from ex g have ex': "executeCrew env sleep_tracking userQuery ctx s =
        (getFallbackCrewExecution env (lit ''sleep_tracking'') userQuery ctx, s)"
      by simp
    show ?thesis
      unfolding g ex'
      by (simp add: getFallbackCrewExecution_def Let_def fallback_first_response
            includes_str_append del: append_assoc)
  qed
next
  show "isConfigured s =
       (\<not> (apiKey s = [] \<or> apiKey s = lit ''your_openai_api_key_here'' \<or> length (apiKey s) \<le> 20))"
    by (auto simp: isConfigured_def)
next
  show "orElse v (lit ''8'') = (if truthy v then toStr v else lit ''8'')"
    by (simp add: orElse_def)
next
  show "truthy (JNum n) = (\<not> isZeroOrNaN n)" by simp
next
  show "toStr (JNum n) = numberToString n" by simp
qed

text \<open>The theorem at a service without a key and a target of 7 hours.\<close>

theorem unconfigured_fallback_witness:
  "\<not> isConfigured idleService
   \<and> requests (snd (executeCrew answeringEnv sleep_tracking sampleQuery sevenHours idleService)) = []
   \<and> executionTime (fst (executeCrew answeringEnv sleep_tracking sampleQuery sevenHours idleService)) = 500
   \<and> startsWith (finalOutput (fst (executeCrew answeringEnv sleep_tracking sampleQuery sevenHours idleService)))
        ([55357, 56884] @ lit '' **Sleep optimization Plan**'')
   \<and> includes_str
        (response (results (fst (executeCrew answeringEnv sleep_tracking sampleQuery sevenHours idleService)) ! 0))
        (lit ''targeting 7 hours of sleep'')"
proof -
  note T = unconfigured_fallback [of idleService answeringEnv sleep_tracking sampleQuery sevenHours
             "JNum numberSeven" numberSeven]
  have r: "requests idleService = []" by (simp add: idleService_def newCrewAIService_def)
  have o: "lit ''targeting '' @ orElse (sevenHours (lit ''targetSleepHours'')) (lit ''8'')
             @ lit '' hours of sleep'' = lit ''targeting 7 hours of sleep''"
    by (simp add: sevenHours_def orElse_def numberSeven_def lit_def)
  from T idleService_unconfigured show ?thesis
    unfolding o by (simp add: r)
qed

text \<open>
  Claim C7 as stated fails. On the responses of the sleep fallback, the message of the
  whole-crew fallback does not end with the message of the combiner of
  \<open>coordinateAgentResponses\<close>, so it is not that message behind a header; and it lists
  four insights where that combiner lists three.
\<close>

theorem fallback_combiner_counterexample:
  "\<not> endsWith (generateFallbackFinalOutput sleepFallback (lit ''sleep_tracking'') sampleQuery)
        (combineManually sleepFallback)
   \<and> length (filter (\<lambda>c. c = bullet)
        (generateFallbackFinalOutput sleepFallback (lit ''sleep_tracking'') sampleQuery)) = 4
   \<and> length (filter (\<lambda>c. c = bullet) (combineManually sleepFallback)) = 3"
  by code_simp

text \<open>
  Claim C7, amended. The message of the whole-crew fallback is built by a combiner of its
  own. Like the combiner of \<open>coordinateAgentResponses\<close>, it pools the recommendations of
  all agents in first-seen order, without removing duplicates, keeps the first five and
  prints them as a numbered list; it prints the insights pooled in the same way as
  bullets, where the other combiner prints the first three of them; and it has its own
  section titles and closing sentence, behind the title line of the goal. Entry \<open>i\<close> of a
  numbered list is the number \<open>i + 1\<close>, a full stop, a space and the item.
\<close>

theorem fallback_message_combiner:
  "generateFallbackFinalOutput agentResults (goalTypeName goalType) userQuery =
     fallbackHeader goalType
     @ lit ''\<newline>''
     @ lit ''\<newline>''
     @ lit ''Based on expert analysis, here's your personalized strategy:\<newline>''
     @ lit ''\<newline>''
     @ lit ''**Priority Actions:**\<newline>''
     @ recommendationsBlock agentResults
     @ lit ''\<newline>''
     @ lit ''\<newline>''
     @ lit ''**Key Insights:**\<newline>''
     @ bulletBlock (concat (map insights agentResults))
     @ lit ''\<newline>''
     @ lit ''\<newline>''
     @ lit ''**Next Steps:**\<newline>''
     @ lit ''Start with action #1 today and gradually build these habits into your ''
     @ lit ''routine. Consistency is more important than perfection!\<newline>''
     @ lit ''\<newline>''
     @ lit ''What would you like to focus on first?''
   \<and> combineManually agentResults =
     lit ''Based on expert analysis, here are your personalized recommendations:\<newline>''
     @ lit ''\<newline>''
     @ recommendationsBlock agentResults
     @ lit ''\<newline>''
     @ lit ''\<newline>''
     @ lit ''Key insights:\<newline>''
     @ bulletBlock (take 3 (concat (map insights agentResults)))
     @ lit ''\<newline>''
     @ lit ''\<newline>''
     @ lit ''Let me know if you'd like me to elaborate on any of these recommendations!''
   \<and> length (numbered xs) = length xs
   \<and> (i < length xs \<longrightarrow> numbered xs ! i = decimal (i + 1) @ lit ''. '' @ xs ! i)"
proof (intro conjI impI)
  show "length (numbered xs) = length xs" by (simp add: numbered_def)
qed (rule generateFallbackFinalOutput_eq combineManually_eq numbered_nth, assumption?)+

text \<open>The theorem at a list of two items.\<close>

theorem fallback_message_combiner_witness:
  "1 < length [lit ''Walk daily'', lit ''Sleep early'']
   \<and> numbered [lit ''Walk daily'', lit ''Sleep early''] ! 1 = lit ''2. Sleep early''
   \<and> length (numbered [lit ''Walk daily'', lit ''Sleep early'']) = 2"
proof -
  note T = fallback_message_combiner
             [of sleepFallback sleep_tracking sampleQuery "[lit ''Walk daily'', lit ''Sleep early'']" 1]
  have d: "decimal (1 + 1) @ lit ''. '' @ [lit ''Walk daily'', lit ''Sleep early''] ! 1
             = lit ''2. Sleep early''"
    by (simp add: decimal.simps lit_def)
  from T have "numbered [lit ''Walk daily'', lit ''Sleep early''] ! 1
                 = decimal (1 + 1) @ lit ''. '' @ [lit ''Walk daily'', lit ''Sleep early''] ! 1"
    by simp
  moreover from T have "length (numbered [lit ''Walk daily'', lit ''Sleep early'']) = 2"
    by simp
  ultimately show ?thesis unfolding d by simp
qed

end
